theory Spec2Isabelle
  imports Main "HOL-Library.Sublist"
begin

section \<open>Go strings as byte lists\<close>

text \<open>
  A Go \<open>string\<close> is a sequence of bytes; it is modelled as \<^typ>\<open>string\<close>, one
  \<^typ>\<open>char\<close> per byte. The functions of package \<open>strings\<close> that
  \<open>backend.go\<close> calls are modelled on bytes. Where they look at Unicode white space
  (\<open>unicode.IsSpace\<close>) the UTF-8 encodings of the white space runes are listed: every one of
  them starts with an ASCII byte or with a UTF-8 start byte and goes on with continuation
  bytes only, so an occurrence of such an encoding in a byte string is always decoded as that
  rune, from the front and from the back.
\<close>

definition space_runes :: "string list" where
  "space_runes =
    [ [CHR 0x09], [CHR 0x0A], [CHR 0x0B], [CHR 0x0C], [CHR 0x0D], [CHR 0x20],
      [CHR 0xC2, CHR 0x85], [CHR 0xC2, CHR 0xA0],
      [CHR 0xE1, CHR 0x9A, CHR 0x80],
      [CHR 0xE2, CHR 0x80, CHR 0x80], [CHR 0xE2, CHR 0x80, CHR 0x81],
      [CHR 0xE2, CHR 0x80, CHR 0x82], [CHR 0xE2, CHR 0x80, CHR 0x83],
      [CHR 0xE2, CHR 0x80, CHR 0x84], [CHR 0xE2, CHR 0x80, CHR 0x85],
      [CHR 0xE2, CHR 0x80, CHR 0x86], [CHR 0xE2, CHR 0x80, CHR 0x87],
      [CHR 0xE2, CHR 0x80, CHR 0x88], [CHR 0xE2, CHR 0x80, CHR 0x89],
      [CHR 0xE2, CHR 0x80, CHR 0x8A],
      [CHR 0xE2, CHR 0x80, CHR 0xA8], [CHR 0xE2, CHR 0x80, CHR 0xA9],
      [CHR 0xE2, CHR 0x80, CHR 0xAF],
      [CHR 0xE2, CHR 0x81, CHR 0x9F],
      [CHR 0xE3, CHR 0x80, CHR 0x80] ]"

text \<open>The number of bytes of the white space rune a string starts with (ends with), 0 if
  it starts (ends) with none.\<close>

definition space_prefix_len :: "string \<Rightarrow> nat" where
  "space_prefix_len s =
     (case find (\<lambda>w. prefix w s) space_runes of None \<Rightarrow> 0 | Some w \<Rightarrow> length w)"

definition space_suffix_len :: "string \<Rightarrow> nat" where
  "space_suffix_len s =
     (case find (\<lambda>w. suffix w s) space_runes of None \<Rightarrow> 0 | Some w \<Rightarrow> length w)"

lemma find_SomeD: "find P xs = Some x \<Longrightarrow> P x \<and> x \<in> set xs"
  by (induction xs) (auto split: if_splits)

lemma space_runes_nonempty: "w \<in> set space_runes \<Longrightarrow> w \<noteq> []"
  by (auto simp: space_runes_def)

lemma space_prefix_len_le: "space_prefix_len s \<le> length s"
  by (auto simp: space_prefix_len_def prefix_def split: option.splits dest!: find_SomeD)

lemma space_suffix_len_le: "space_suffix_len s \<le> length s"
  by (auto simp: space_suffix_len_def suffix_def split: option.splits dest!: find_SomeD)

function TrimLeft :: "string \<Rightarrow> string" where
  "TrimLeft s =
     (if space_prefix_len s = 0 then s else TrimLeft (drop (space_prefix_len s) s))"
  by pat_completeness auto
termination
proof (relation "measure length")
  show "wf (measure length)" by simp
next
  fix s :: string
  assume "space_prefix_len s \<noteq> 0"
  moreover have "space_prefix_len s \<le> length s" by (rule space_prefix_len_le)
  ultimately show "(drop (space_prefix_len s) s, s) \<in> measure length" by simp
qed

function TrimRight :: "string \<Rightarrow> string" where
  "TrimRight s =
     (if space_suffix_len s = 0 then s
      else TrimRight (take (length s - space_suffix_len s) s))"
  by pat_completeness auto
termination
proof (relation "measure length")
  show "wf (measure length)" by simp
next
  fix s :: string
  assume "space_suffix_len s \<noteq> 0"
  moreover have "space_suffix_len s \<le> length s" by (rule space_suffix_len_le)
  ultimately show "(take (length s - space_suffix_len s) s, s) \<in> measure length" by simp
qed

declare TrimLeft.simps [simp del] TrimRight.simps [simp del]

text \<open>\<open>strings.TrimSpace\<close>: all leading and trailing white space runes removed.\<close>

definition TrimSpace :: "string \<Rightarrow> string" where
  "TrimSpace s = TrimRight (TrimLeft s)"

text \<open>\<open>strings.Fields\<close>: the maximal runs of bytes between white space runes, none of them
  empty. \<open>cur\<close> is the field being read.\<close>

function fields_from :: "string \<Rightarrow> string \<Rightarrow> string list" where
  "fields_from cur [] = (if cur = [] then [] else [cur])"
| "fields_from cur (c # cs) =
     (if space_prefix_len (c # cs) = 0 then fields_from (cur @ [c]) cs
      else (if cur = [] then [] else [cur])
           @ fields_from [] (drop (space_prefix_len (c # cs)) (c # cs)))"
  by pat_completeness auto
termination
proof (relation "measure (\<lambda>(cur, s). length s)")
  show "wf (measure (\<lambda>(cur, s). length s))" by simp
next
  fix cur :: string and c cs
  show "((cur @ [c], cs), (cur, c # cs)) \<in> measure (\<lambda>(cur, s). length s)" by simp
next
  fix cur :: string and c cs
  assume "space_prefix_len (c # cs) \<noteq> 0"
  moreover have "space_prefix_len (c # cs) \<le> length (c # cs)" by (rule space_prefix_len_le)
  ultimately show "(([], drop (space_prefix_len (c # cs)) (c # cs)), (cur, c # cs))
      \<in> measure (\<lambda>(cur, s). length s)"
    by (cases "space_prefix_len (c # cs)") auto
qed

declare fields_from.simps(2) [simp del]

definition Fields :: "string \<Rightarrow> string list" where
  "Fields s = fields_from [] s"

text \<open>\<open>strings.Split(s, "\n")\<close>: the pieces between line feeds; one more piece than there
  are line feeds, so never an empty list.\<close>

fun split_from :: "string \<Rightarrow> string \<Rightarrow> string list" where
  "split_from cur [] = [cur]"
| "split_from cur (c # cs) =
     (if c = CHR 0x0A then cur # split_from [] cs else split_from (cur @ [c]) cs)"

definition SplitLines :: "string \<Rightarrow> string list" where
  "SplitLines s = split_from [] s"

text \<open>\<open>strings.HasPrefix\<close> and \<open>strings.Contains\<close> compare bytes.\<close>

definition HasPrefix :: "string \<Rightarrow> string \<Rightarrow> bool" where
  "HasPrefix s p = prefix p s"

definition Contains :: "string \<Rightarrow> string \<Rightarrow> bool" where
  "Contains s substr = sublist substr s"

text \<open>
  \<open>strings.ToLower\<close>: a string of ASCII bytes only has its letters \<open>A\<close> to \<open>Z\<close> replaced
  by \<open>a\<close> to \<open>z\<close>. Any other string goes through \<open>strings.Map(unicode.ToLower, s)\<close>, which
  depends on the case tables of package \<open>unicode\<close>; that mapping is the parameter
  \<open>ulower\<close>.
\<close>

definition is_ascii :: "string \<Rightarrow> bool" where
  "is_ascii s = list_all (\<lambda>c. (of_char c :: nat) < 128) s"

definition lower_byte :: "char \<Rightarrow> char" where
  "lower_byte c =
     (if (65::nat) \<le> of_char c \<and> (of_char c :: nat) \<le> 90
      then char_of ((of_char c :: nat) + 32) else c)"

definition ToLower :: "(string \<Rightarrow> string) \<Rightarrow> string \<Rightarrow> string" where
  "ToLower ulower s = (if is_ascii s then map lower_byte s else ulower s)"

text \<open>\<open>strconv.Itoa\<close>, and \<open>%d\<close> of \<open>fmt.Sprintf\<close>: the decimal digits, after a minus sign
  for a negative number.\<close>

fun digits :: "nat \<Rightarrow> string" where
  "digits n =
     (if n < 10 then [''0123456789'' ! n]
      else digits (n div 10) @ [''0123456789'' ! (n mod 10)])"

declare digits.simps [simp del]

definition Itoa :: "int \<Rightarrow> string" where
  "Itoa i = (if i < 0 then CHR ''-'' # digits (nat (- i)) else digits (nat i))"

section \<open>The error taxonomy (\<open>errors.go\<close>)\<close>

datatype ErrorKind =
    ErrorKindTimeout
  | ErrorKindCommandFailed
  | ErrorKindParse
  | ErrorKindInvalidInput
  | ErrorKindNotRunning

text \<open>
  The values of Go's interface \<open>error\<close> that reach this package: the two sentinels of package
  \<open>context\<close>, an \<open>*exec.ExitError\<close> with the value its \<open>ExitCode()\<close> returns, an error made by
  \<open>fmt.Errorf\<close> (format and arguments), any other error (by its text), and an error that
  wraps another one. A \<open>nil\<close> error is \<^const>\<open>None\<close>.
\<close>

datatype go_error =
    DeadlineExceeded
  | Canceled
  | ExitError int
  | Errorf string "string list"
  | OtherError string
  | Wrapped string go_error

record UIError =
  Kind :: ErrorKind
  Message :: string
  Command :: string
  Stdout :: string
  Stderr :: string
  ExitCode :: int
  Err :: "go_error option"

text \<open>The fields a composite literal leaves out hold Go's zero values.\<close>

definition newInvalidInputError :: "string \<Rightarrow> UIError" where
  "newInvalidInputError message =
     \<lparr> Kind = ErrorKindInvalidInput, Message = message, Command = [], Stdout = [],
       Stderr = [], ExitCode = 0, Err = None \<rparr>"

definition newNotRunningError :: "string \<Rightarrow> UIError" where
  "newNotRunningError message =
     \<lparr> Kind = ErrorKindNotRunning, Message = message, Command = [], Stdout = [],
       Stderr = [], ExitCode = 0, Err = None \<rparr>"

definition newTimeoutError :: "string \<Rightarrow> go_error option \<Rightarrow> UIError" where
  "newTimeoutError command err =
     \<lparr> Kind = ErrorKindTimeout, Message = ''timeout while running '' @ command,
       Command = command, Stdout = [], Stderr = [], ExitCode = 0, Err = err \<rparr>"

definition newCommandFailedError ::
  "string \<Rightarrow> string \<Rightarrow> string \<Rightarrow> int \<Rightarrow> go_error option \<Rightarrow> UIError" where
  "newCommandFailedError command stdout stderr exitCode err =
     \<lparr> Kind = ErrorKindCommandFailed, Message = ''command failed: '' @ command,
       Command = command, Stdout = stdout, Stderr = stderr, ExitCode = exitCode,
       Err = err \<rparr>"

definition newParseError ::
  "string \<Rightarrow> string \<Rightarrow> string \<Rightarrow> go_error option \<Rightarrow> UIError" where
  "newParseError command stdout stderr err =
     \<lparr> Kind = ErrorKindParse, Message = ''unexpected output from '' @ command,
       Command = command, Stdout = stdout, Stderr = stderr, ExitCode = 0, Err = err \<rparr>"

text \<open>\<open>isTimeout\<close> compares with \<open>==\<close>: an error that wraps a sentinel is not one.\<close>

definition isTimeout :: "go_error option \<Rightarrow> bool" where
  "isTimeout err = (err = Some DeadlineExceeded \<or> err = Some Canceled)"

section \<open>The orchestrator (\<open>backend.go\<close>)\<close>

subsection \<open>Data\<close>

record Device =
  ID :: string
  State :: string

text \<open>Go's \<open>int\<close> is an \<^typ>\<open>int\<close> here: the code compares it with 0 and prints it, and
  never computes with it.\<close>

record ScrcpyOptions =
  BitRate :: string
  MaxSize :: int
  MaxFps :: int
  TurnScreenOff :: bool
  Fullscreen :: bool
  StayAwake :: bool
  Record :: string
  WindowTitle :: string
  ExtraArgs :: "string list"

text \<open>
  The orchestrator. A \<open>time.Duration\<close> is its number of nanoseconds. The process handle
  \<open>scrcpyCmd\<close> and the cancellation function \<open>scrcpyCancel\<close> are \<open>nil\<close> (\<^const>\<open>None\<close>)
  or name a started process by its position in the log of spawned commands. The mutex
  \<open>mu\<close> is not a field: a section of code that holds it is one step of the model.
\<close>

record Backend =
  adbPath :: string
  scrcpyPath :: string
  adbTimeout :: int
  scrcpyTimeout :: int
  scrcpyCmd :: "nat option"
  scrcpyCancel :: "nat option"

definition defaultAdbTimeout :: int where
  "defaultAdbTimeout = 10 * 1000000000"

definition defaultScrcpyTimeout :: int where
  "defaultScrcpyTimeout = 24 * (60 * 60 * 1000000000)"

definition NewBackend :: "string \<Rightarrow> string \<Rightarrow> Backend" where
  "NewBackend adb scrcpy =
     \<lparr> adbPath = (if adb = [] then ''adb'' else adb),
       scrcpyPath = (if scrcpy = [] then ''scrcpy'' else scrcpy),
       adbTimeout = defaultAdbTimeout,
       scrcpyTimeout = defaultScrcpyTimeout,
       scrcpyCmd = None,
       scrcpyCancel = None \<rparr>"

subsection \<open>The world outside\<close>

text \<open>
  What \<open>cmd.Run()\<close> leaves behind: the bytes the process wrote to its standard output and to
  its standard error, the error \<open>Run\<close> returned, and what \<open>ctx.Err()\<close> returns afterwards.
\<close>

record proc_outcome =
  out_bytes :: string
  err_bytes :: string
  run_err :: "go_error option"
  ctx_err :: "go_error option"

text \<open>
  The environment is a parameter of the model: \<open>cmd_run\<close> is \<open>cmd.Run()\<close> of a command
  made by \<open>exec.CommandContext\<close> under a context with the given timeout, \<open>cmd_start\<close> is
  \<open>cmd.Start()\<close>, and \<open>unicode_lower\<close> is the lower-casing of strings that are not ASCII.
  Every call of \<open>Run\<close> or \<open>Start\<close> is written to a log of spawned commands, which the
  functions pass on.
\<close>

record env =
  unicode_lower :: "string \<Rightarrow> string"
  cmd_run :: "int \<Rightarrow> string \<Rightarrow> string list \<Rightarrow> proc_outcome"
  cmd_start :: "string \<Rightarrow> string list \<Rightarrow> go_error option"

type_synonym spawn_log = "(string \<times> string list) list"

subsection \<open>Bounded command execution\<close>

text \<open>\<open>errors.As(err, &exitErr)\<close> followed by \<open>exitErr.ExitCode()\<close>: the first exit error in
  the chain of \<open>err\<close>, and 0 when there is none.\<close>

fun exit_code_of :: "go_error \<Rightarrow> int" where
  "exit_code_of (ExitError c) = c"
| "exit_code_of (Wrapped msg e) = exit_code_of e"
| "exit_code_of e = 0"

definition runCommand ::
  "env \<Rightarrow> int \<Rightarrow> string \<Rightarrow> string list \<Rightarrow> spawn_log
     \<Rightarrow> (string \<times> string \<times> UIError option) \<times> spawn_log" where
  "runCommand E timeout command args lg =
     (let r = cmd_run E timeout command args;
          outStr = TrimSpace (out_bytes r);
          errStr = TrimSpace (err_bytes r);
          lg' = lg @ [(command, args)]
      in case run_err r of
           Some e \<Rightarrow>
             if isTimeout (Some e) \<or> ctx_err r \<noteq> None
             then ((outStr, errStr, Some (newTimeoutError command (Some e))), lg')
             else ((outStr, errStr,
                    Some (newCommandFailedError command outStr errStr (exit_code_of e) (Some e))),
                   lg')
         | None \<Rightarrow> ((outStr, errStr, None), lg'))"

definition runAdb ::
  "env \<Rightarrow> Backend \<Rightarrow> string list \<Rightarrow> spawn_log
     \<Rightarrow> (string \<times> string \<times> UIError option) \<times> spawn_log" where
  "runAdb E b args lg = runCommand E (adbTimeout b) (adbPath b) args lg"

fun containsAny :: "env \<Rightarrow> string \<Rightarrow> string list \<Rightarrow> bool" where
  "containsAny E haystack [] = False"
| "containsAny E haystack (needle # needles) =
     (if Contains (ToLower (unicode_lower E) haystack) (ToLower (unicode_lower E) needle)
      then True else containsAny E haystack needles)"

subsection \<open>Bridge operations\<close>

definition PairDevice ::
  "env \<Rightarrow> Backend \<Rightarrow> string \<Rightarrow> int \<Rightarrow> string \<Rightarrow> spawn_log \<Rightarrow> UIError option \<times> spawn_log" where
  "PairDevice E b ip port code lg =
     (if ip = [] \<or> port \<le> 0 \<or> code = []
      then (Some (newInvalidInputError ''pair requires ip, port, and code''), lg)
      else
        let endpoint = ip @ '':'' @ Itoa port in
        case runAdb E b [''pair'', endpoint, code] lg of
          ((stdout, stderr, Some err), lg') \<Rightarrow> (Some err, lg')
        | ((stdout, stderr, None), lg') \<Rightarrow>
            if containsAny E stdout [''Successfully paired to'', ''already paired'']
            then (None, lg')
            else if containsAny E stdout [''failed'', ''error'']
            then (Some (newCommandFailedError ''adb pair'' stdout stderr 0
                          (Some (Errorf ''pair failed'' []))), lg')
            else (Some (newParseError ''adb pair'' stdout stderr
                          (Some (Errorf ''unexpected output'' []))), lg'))"

definition ConnectDevice ::
  "env \<Rightarrow> Backend \<Rightarrow> string \<Rightarrow> int \<Rightarrow> spawn_log \<Rightarrow> UIError option \<times> spawn_log" where
  "ConnectDevice E b ip port lg =
     (if ip = [] \<or> port \<le> 0
      then (Some (newInvalidInputError ''connect requires ip and port''), lg)
      else
        let endpoint = ip @ '':'' @ Itoa port in
        case runAdb E b [''connect'', endpoint] lg of
          ((stdout, stderr, Some err), lg') \<Rightarrow> (Some err, lg')
        | ((stdout, stderr, None), lg') \<Rightarrow>
            if containsAny E stdout [''connected to'', ''already connected'']
            then (None, lg')
            else if containsAny E stdout [''failed'', ''unable'']
            then (Some (newCommandFailedError ''adb connect'' stdout stderr 0
                          (Some (Errorf ''connect failed'' []))), lg')
            else (Some (newParseError ''adb connect'' stdout stderr
                          (Some (Errorf ''unexpected output'' []))), lg'))"

definition EnableTCPIP ::
  "env \<Rightarrow> Backend \<Rightarrow> int \<Rightarrow> spawn_log \<Rightarrow> UIError option \<times> spawn_log" where
  "EnableTCPIP E b port lg =
     (if port \<le> 0
      then (Some (newInvalidInputError ''tcpip requires a port''), lg)
      else
        case runAdb E b [''tcpip'', Itoa port] lg of
          ((stdout, stderr, Some err), lg') \<Rightarrow> (Some err, lg')
        | ((stdout, stderr, None), lg') \<Rightarrow>
            if containsAny E stdout [''restarting in TCP mode'', ''already in tcp'']
            then (None, lg')
            else (Some (newParseError ''adb tcpip'' stdout stderr
                          (Some (Errorf ''unexpected output'' []))), lg'))"

definition DisconnectDevice ::
  "env \<Rightarrow> Backend \<Rightarrow> string \<Rightarrow> int \<Rightarrow> spawn_log \<Rightarrow> UIError option \<times> spawn_log" where
  "DisconnectDevice E b ip port lg =
     (if ip = [] \<or> port \<le> 0
      then (Some (newInvalidInputError ''disconnect requires ip and port''), lg)
      else
        let endpoint = ip @ '':'' @ Itoa port in
        case runAdb E b [''disconnect'', endpoint] lg of
          ((stdout, stderr, Some err), lg') \<Rightarrow> (Some err, lg')
        | ((stdout, stderr, None), lg') \<Rightarrow>
            if containsAny E stdout [''disconnected'', ''no such device'']
            then (None, lg')
            else (Some (newParseError ''adb disconnect'' stdout stderr
                          (Some (Errorf ''unexpected output'' []))), lg'))"

subsection \<open>Listing devices\<close>

text \<open>The loop of \<open>ListDevices\<close> over the lines; \<open>devices\<close> is the slice built so far. A
  \<open>nil\<close> slice is the empty list.\<close>

fun parse_lines :: "string \<Rightarrow> string \<Rightarrow> string list \<Rightarrow> Device list \<Rightarrow> Device list \<times> UIError option" where
  "parse_lines stdout stderr [] devices = (devices, None)"
| "parse_lines stdout stderr (l # ls) devices =
     (let line = TrimSpace l in
      if line = [] \<or> HasPrefix line ''List of devices attached''
      then parse_lines stdout stderr ls devices
      else
        let fields = Fields line in
        if length fields < 2
        then ([], Some (newParseError ''adb devices'' stdout stderr
                          (Some (Errorf ''unexpected device line: %q'' [line]))))
        else parse_lines stdout stderr ls
               (devices @ [\<lparr> ID = fields ! 0, State = fields ! 1 \<rparr>]))"

definition ListDevices ::
  "env \<Rightarrow> Backend \<Rightarrow> spawn_log \<Rightarrow> (Device list \<times> UIError option) \<times> spawn_log" where
  "ListDevices E b lg =
     (case runAdb E b [''devices''] lg of
        ((stdout, stderr, Some err), lg') \<Rightarrow> (([], Some err), lg')
      | ((stdout, stderr, None), lg') \<Rightarrow>
          (parse_lines stdout stderr (SplitLines stdout) [], lg'))"

subsection \<open>The mirroring session\<close>

definition buildScrcpyArgs :: "string \<Rightarrow> ScrcpyOptions \<Rightarrow> string list" where
  "buildScrcpyArgs deviceID options =
     (let args = [];
          args = (if deviceID \<noteq> [] then args @ [''-s'', deviceID] else args);
          args = (if BitRate options \<noteq> [] then args @ [''--bit-rate'', BitRate options]
                  else args);
          args = (if MaxSize options > 0 then args @ [''--max-size'', Itoa (MaxSize options)]
                  else args);
          args = (if MaxFps options > 0 then args @ [''--max-fps'', Itoa (MaxFps options)]
                  else args);
          args = (if TurnScreenOff options then args @ [''--turn-screen-off''] else args);
          args = (if Fullscreen options then args @ [''--fullscreen''] else args);
          args = (if StayAwake options then args @ [''--stay-awake''] else args);
          args = (if Record options \<noteq> [] then args @ [''--record'', Record options]
                  else args);
          args = (if WindowTitle options \<noteq> []
                  then args @ [''--window-title'', WindowTitle options] else args);
          args = (if length (ExtraArgs options) > 0 then args @ ExtraArgs options else args)
      in args)"

text \<open>
  \<open>StartScrcpy\<close>, the part that runs under the lock. The started process is named by its
  position in the log. The goroutine that \<open>StartScrcpy\<close> leaves behind is
  \<open>watcher_exit\<close> below: it runs, under the lock again, once \<open>cmd.Wait()\<close> has returned.
\<close>

definition StartScrcpy ::
  "env \<Rightarrow> Backend \<Rightarrow> string \<Rightarrow> ScrcpyOptions \<Rightarrow> spawn_log
     \<Rightarrow> UIError option \<times> Backend \<times> spawn_log" where
  "StartScrcpy E b deviceID options lg =
     (if scrcpyCmd b \<noteq> None
      then (Some (newCommandFailedError ''scrcpy'' [] [] 0
                    (Some (Errorf ''scrcpy already running'' []))), b, lg)
      else
        let args = buildScrcpyArgs deviceID options;
            lg' = lg @ [(scrcpyPath b, args)]
        in case cmd_start E (scrcpyPath b) args of
             Some err \<Rightarrow> (Some (newCommandFailedError ''scrcpy'' [] [] 0 (Some err)), b, lg')
           | None \<Rightarrow>
               (None, b\<lparr> scrcpyCmd := Some (length lg), scrcpyCancel := Some (length lg) \<rparr>,
                lg'))"

definition watcher_exit :: "Backend \<Rightarrow> Backend" where
  "watcher_exit b = b\<lparr> scrcpyCmd := None, scrcpyCancel := None \<rparr>"

text \<open>
  \<open>StopScrcpy\<close> reads the two fields under the lock and changes neither. What it does to the
  process is returned as a list of effects; \<open>exited\<close> tells whether the process was seen to
  exit before the five seconds of grace were over.
\<close>

datatype stop_effect = CancelCalled nat | ProcessKilled nat

definition StopScrcpy :: "bool \<Rightarrow> Backend \<Rightarrow> UIError option \<times> Backend \<times> stop_effect list" where
  "StopScrcpy exited b =
     (case (scrcpyCmd b, scrcpyCancel b) of
        (Some cmd, Some cancel) \<Rightarrow>
          if exited then (None, b, [CancelCalled cancel])
          else (Some (newTimeoutError ''scrcpy'' (Some DeadlineExceeded)), b,
                [CancelCalled cancel, ProcessKilled cmd])
      | _ \<Rightarrow> (Some (newNotRunningError ''scrcpy is not running''), b, []))"

subsection \<open>The orchestrator among its processes\<close>

text \<open>
  The orchestrator together with the mirroring processes it has started: \<open>live\<close> holds the
  processes that run, \<open>watchers\<close> the processes whose watcher goroutine has not yet cleared
  the fields. Each critical section is one step; the steps interleave in any order.
\<close>

record sys =
  backend :: Backend
  spawned :: spawn_log
  live :: "nat set"
  watchers :: "nat set"

definition sys_init :: "string \<Rightarrow> string \<Rightarrow> sys" where
  "sys_init adb scrcpy =
     \<lparr> backend = NewBackend adb scrcpy, spawned = [], live = {}, watchers = {} \<rparr>"

definition sys_start :: "env \<Rightarrow> string \<Rightarrow> ScrcpyOptions \<Rightarrow> sys \<Rightarrow> UIError option \<times> sys" where
  "sys_start E deviceID options s =
     (case StartScrcpy E (backend s) deviceID options (spawned s) of
        (None, b', lg') \<Rightarrow>
          (None, \<lparr> backend = b', spawned = lg',
                   live = insert (length (spawned s)) (live s),
                   watchers = insert (length (spawned s)) (watchers s) \<rparr>)
      | (Some err, b', lg') \<Rightarrow> (Some err, s\<lparr> backend := b', spawned := lg' \<rparr>))"

definition sys_stop :: "bool \<Rightarrow> sys \<Rightarrow> UIError option \<times> sys" where
  "sys_stop exited s =
     (case StopScrcpy exited (backend s) of (r, b', effects) \<Rightarrow> (r, s\<lparr> backend := b' \<rparr>))"

definition sys_exit :: "nat \<Rightarrow> sys \<Rightarrow> sys" where
  "sys_exit h s = s\<lparr> live := live s - {h} \<rparr>"

definition sys_watcher :: "nat \<Rightarrow> sys \<Rightarrow> sys" where
  "sys_watcher h s = s\<lparr> backend := watcher_exit (backend s), watchers := watchers s - {h} \<rparr>"

inductive reachable :: "env \<Rightarrow> sys \<Rightarrow> bool" for E :: env where
  r_init: "reachable E (sys_init adb scrcpy)"
| r_start: "reachable E s \<Longrightarrow> reachable E (snd (sys_start E deviceID options s))"
| r_stop: "reachable E s \<Longrightarrow> reachable E (snd (sys_stop exited s))"
| r_exit: "reachable E s \<Longrightarrow> h \<in> live s \<Longrightarrow> reachable E (sys_exit h s)"
| r_watcher: "reachable E s \<Longrightarrow> h \<in> watchers s \<Longrightarrow> h \<notin> live s \<Longrightarrow>
     reachable E (sys_watcher h s)"
| r_bridge: "reachable E s \<Longrightarrow> reachable E (s\<lparr> spawned := spawned s @ [c] \<rparr>)"

subsection \<open>Concrete environments and inputs\<close>

text \<open>An environment in which every command run has the given outcome and every start
  succeeds, and outcomes to put into it.\<close>

definition env_of :: "proc_outcome \<Rightarrow> env" where
  "env_of r =
     \<lparr> unicode_lower = (\<lambda>s. s), cmd_run = (\<lambda>t c a. r), cmd_start = (\<lambda>c a. None) \<rparr>"

definition exit_zero :: "string \<Rightarrow> proc_outcome" where
  "exit_zero out = \<lparr> out_bytes = out, err_bytes = [], run_err = None, ctx_err = None \<rparr>"

definition no_options :: ScrcpyOptions where
  "no_options =
     \<lparr> BitRate = [], MaxSize = 0, MaxFps = 0, TurnScreenOff = False, Fullscreen = False,
       StayAwake = False, Record = [], WindowTitle = [], ExtraArgs = [] \<rparr>"

definition running_backend :: Backend where
  "running_backend = (NewBackend [] [])\<lparr> scrcpyCmd := Some 0, scrcpyCancel := Some 0 \<rparr>"

definition started_sys :: sys where
  "started_sys =
     snd (sys_start (env_of (exit_zero [])) ''abc123'' no_options (sys_init [] []))"

text \<open>The flags \<open>buildScrcpyArgs\<close> can emit, and some options.\<close>

definition scrcpy_flags :: "string list" where
  "scrcpy_flags =
     [''-s'', ''--bit-rate'', ''--max-size'', ''--max-fps'', ''--turn-screen-off'',
      ''--fullscreen'', ''--stay-awake'', ''--record'', ''--window-title'']"

definition some_options :: ScrcpyOptions where
  "some_options =
     \<lparr> BitRate = ''8M'', MaxSize = 1024, MaxFps = 0, TurnScreenOff = True, Fullscreen = False,
       StayAwake = False, Record = [], WindowTitle = ''phone'', ExtraArgs = [''--no-audio''] \<rparr>"

text \<open>A string that consists of white space runes only.\<close>

definition all_space :: "string \<Rightarrow> bool" where
  "all_space s = (TrimLeft s = [])"

text \<open>
  Two outcomes of running a command: a process that exits with status 1, and a process that
  is killed when the deadline of its context passes (the exit code of a process ended by a
  signal is -1).
\<close>

definition failed_outcome :: proc_outcome where
  "failed_outcome =
     \<lparr> out_bytes = '' partial output\<newline>'', err_bytes = ''adb: device offline\<newline>'',
       run_err = Some (ExitError 1), ctx_err = None \<rparr>"

definition killed_outcome :: proc_outcome where
  "killed_outcome =
     \<lparr> out_bytes = ''* daemon started\<newline>'', err_bytes = ''adb: waiting\<newline>'',
       run_err = Some (ExitError (- 1)), ctx_err = Some DeadlineExceeded \<rparr>"


subsection \<open>The classification as the specification words it\<close>

text \<open>
  Following the specification: a phrase occurs in the output when it is a substring of it,
  letter case aside; the success group is looked at first and gives no error, then the
  failure group, which gives \<open>command_failed\<close>, and an output that matches neither group
  gives \<open>parse\<close>. The result is the kind of the error, \<^const>\<open>None\<close> for success.
\<close>

definition spec_occurs :: "env \<Rightarrow> string \<Rightarrow> string \<Rightarrow> bool" where
  "spec_occurs E phrase s =
     sublist (ToLower (unicode_lower E) phrase) (ToLower (unicode_lower E) s)"

definition spec_outcome ::
  "env \<Rightarrow> string list \<Rightarrow> string list \<Rightarrow> string \<Rightarrow> ErrorKind option" where
  "spec_outcome E success failure stdout =
     (if \<exists>p \<in> set success. spec_occurs E p stdout then None
      else if \<exists>p \<in> set failure. spec_occurs E p stdout then Some ErrorKindCommandFailed
      else Some ErrorKindParse)"

text \<open>Two outputs of a bridge command that exits with status 0.\<close>

definition mixed_output :: string where
  "mixed_output = ''FAILED once, then SUCCESSFULLY PAIRED TO 192.168.1.5:5555\<newline>''"

definition failure_output :: string where
  "failure_output = ''failed to restart adbd: unable to open port, error 13\<newline>''"

text \<open>An output of \<open>adb devices\<close> that exits with status 0: a line with two failure phrases
  in it and a line with no phrase of any group.\<close>

definition listing_output :: string where
  "listing_output = ''error: failed to list\<newline>foo bar\<newline>''"

subsection \<open>The device listing as the specification words it\<close>

text \<open>
  Following the specification: the lines of the output that are neither empty nor a header,
  each trimmed, and the device that a line with two fields or more stands for.
\<close>

definition spec_device_lines :: "string \<Rightarrow> string list" where
  "spec_device_lines stdout =
     filter (\<lambda>l. l \<noteq> [] \<and> \<not> prefix ''List of devices attached'' l)
       (map TrimSpace (SplitLines stdout))"

definition spec_device_of_line :: "string \<Rightarrow> Device" where
  "spec_device_of_line l = \<lparr> ID = Fields l ! 0, State = Fields l ! 1 \<rparr>"

text \<open>The output of \<open>adb devices\<close> with one device, and one with a line of a single
  field.\<close>

definition device_line :: string where
  "device_line = ''abc123'' @ [CHR 0x09] @ ''device''"

definition one_device_output :: string where
  "one_device_output = ''List of devices attached\<newline>\<newline>'' @ device_line @ ''\<newline>''"

definition single_token_output :: string where
  "single_token_output =
     ''List of devices attached\<newline>'' @ device_line @ ''\<newline>def456\<newline>''"

section \<open>Properties\<close>

subsection \<open>Input validation\<close>

text \<open>
  Claim C2. An empty address (Pair, Connect, Disconnect), a port that is not positive (Pair,
  Connect, Disconnect, EnableTCPIP) or an empty pairing code (Pair) makes the operation
  return an error of kind \<open>invalid_input\<close>, and the log of spawned commands is the one the
  operation was given: nothing has been run.
\<close>

theorem invalid_input_spawns_nothing:
  "(ip = [] \<or> port \<le> 0 \<or> code = [] \<longrightarrow>
      (\<exists>e. Kind e = ErrorKindInvalidInput \<and>
           (\<forall>E. PairDevice E b ip port code lg = (Some e, lg))))
   \<and> (ip = [] \<or> port \<le> 0 \<longrightarrow>
      (\<exists>e. Kind e = ErrorKindInvalidInput \<and>
           (\<forall>E. ConnectDevice E b ip port lg = (Some e, lg))))
   \<and> (ip = [] \<or> port \<le> 0 \<longrightarrow>
      (\<exists>e. Kind e = ErrorKindInvalidInput \<and>
           (\<forall>E. DisconnectDevice E b ip port lg = (Some e, lg))))
   \<and> (port \<le> 0 \<longrightarrow>
      (\<exists>e. Kind e = ErrorKindInvalidInput \<and>
           (\<forall>E. EnableTCPIP E b port lg = (Some e, lg))))"
  by (simp add: PairDevice_def ConnectDevice_def DisconnectDevice_def EnableTCPIP_def
      newInvalidInputError_def)

theorem invalid_input_spawns_nothing_witness:
  "([] = ([] :: string) \<or> (0::int) \<le> 0 \<or> ''123456'' = []) \<and>
   (\<exists>e. Kind e = ErrorKindInvalidInput \<and>
        (\<forall>E. PairDevice E (NewBackend [] []) [] 0 ''123456'' [] = (Some e, []))) \<and>
   (\<exists>e. Kind e = ErrorKindInvalidInput \<and>
        (\<forall>E. ConnectDevice E (NewBackend [] []) [] 0 [] = (Some e, []))) \<and>
   (\<exists>e. Kind e = ErrorKindInvalidInput \<and>
        (\<forall>E. DisconnectDevice E (NewBackend [] []) [] 0 [] = (Some e, []))) \<and>
   (\<exists>e. Kind e = ErrorKindInvalidInput \<and>
        (\<forall>E. EnableTCPIP E (NewBackend [] []) 0 [] = (Some e, [])))"
  using invalid_input_spawns_nothing [of "[]" 0 "''123456''" "NewBackend [] []" "[]"]
  by simp

subsection \<open>One session at a time\<close>

lemma reachable_inv:
  "reachable E s \<Longrightarrow>
     live s \<subseteq> watchers s \<and> watchers s \<subseteq> set_option (scrcpyCmd (backend s))"
proof (induction rule: reachable.induct)
  case (r_init adb scrcpy)
  show ?case by (simp add: sys_init_def)
next
  case (r_start s deviceID options)
  then show ?case
    by (auto simp: sys_start_def StartScrcpy_def Let_def split: option.splits if_splits)
next
  case (r_stop s exited)
  then show ?case
    by (auto simp: sys_stop_def StopScrcpy_def split: option.splits if_splits)
next
  case (r_exit s h)
  then show ?case by (auto simp: sys_exit_def)
next
  case (r_watcher s h)
  then show ?case
    by (cases "scrcpyCmd (backend s)") (auto simp: sys_watcher_def watcher_exit_def)
next
  case (r_bridge s c)
  then show ?case by simp
qed

lemma subset_option_card: "A \<subseteq> set_option x \<Longrightarrow> finite A \<and> card A \<le> 1"
proof (cases x)
  case None
  assume "A \<subseteq> set_option x"
  with None show ?thesis by simp
next
  case (Some h)
  assume "A \<subseteq> set_option x"
  with Some have sub: "A \<subseteq> {h}" by simp
  then have "finite A" by (rule finite_subset) simp
  moreover have "card A \<le> card {h}" using sub by (intro card_mono) simp_all
  ultimately show ?thesis by simp
qed

text \<open>
  Claim C4. \<open>StartScrcpy\<close> called while a handle is stored fails with kind
  \<open>command_failed\<close> and leaves the orchestrator and the log of spawned commands as they
  were; \<open>StopScrcpy\<close> called while no handle is stored fails with kind \<open>not_running\<close>,
  changes nothing and touches no process. In every state the orchestrator and its processes
  can reach, at most one mirroring process runs, and it is the one whose handle is stored.
\<close>

theorem at_most_one_session:
  "(scrcpyCmd b \<noteq> None \<longrightarrow>
      (\<exists>e. Kind e = ErrorKindCommandFailed \<and>
           StartScrcpy E b deviceID options lg = (Some e, b, lg)))
   \<and> (scrcpyCmd b = None \<longrightarrow>
      (\<exists>e. Kind e = ErrorKindNotRunning \<and> StopScrcpy exited b = (Some e, b, [])))
   \<and> (reachable E s \<longrightarrow>
      finite (live s) \<and> card (live s) \<le> 1 \<and> live s \<subseteq> set_option (scrcpyCmd (backend s)))"
proof (intro conjI impI)
  assume "scrcpyCmd b \<noteq> None"
  then show "\<exists>e. Kind e = ErrorKindCommandFailed \<and>
      StartScrcpy E b deviceID options lg = (Some e, b, lg)"
    by (simp add: StartScrcpy_def newCommandFailedError_def)
next
  assume "scrcpyCmd b = None"
  then show "\<exists>e. Kind e = ErrorKindNotRunning \<and> StopScrcpy exited b = (Some e, b, [])"
    by (simp add: StopScrcpy_def newNotRunningError_def)
next
  assume r: "reachable E s"
  from reachable_inv [OF r] have sub: "live s \<subseteq> set_option (scrcpyCmd (backend s))"
    by blast
  from subset_option_card [OF sub] show "finite (live s)" by simp
  from subset_option_card [OF sub] show "card (live s) \<le> 1" by simp
  from sub show "live s \<subseteq> set_option (scrcpyCmd (backend s))" .
qed

lemma started_sys_eq: "live started_sys = {0} \<and> scrcpyCmd (backend started_sys) = Some 0"
  by (simp add: started_sys_def sys_start_def sys_init_def StartScrcpy_def env_of_def NewBackend_def Let_def)

theorem at_most_one_session_witness:
  "scrcpyCmd running_backend \<noteq> None
   \<and> (\<exists>e. Kind e = ErrorKindCommandFailed \<and>
         StartScrcpy (env_of (exit_zero [])) running_backend ''abc123'' no_options [(''scrcpy'', [])]
           = (Some e, running_backend, [(''scrcpy'', [])]))
   \<and> scrcpyCmd (NewBackend [] []) = None
   \<and> (\<exists>e. Kind e = ErrorKindNotRunning \<and>
         StopScrcpy True (NewBackend [] []) = (Some e, NewBackend [] [], []))
   \<and> reachable (env_of (exit_zero [])) started_sys
   \<and> live started_sys = {0}
   \<and> card (live started_sys) \<le> 1"
proof -
  have r: "reachable (env_of (exit_zero [])) started_sys"
    unfolding started_sys_def by (rule r_start) (rule r_init)
  have a: "scrcpyCmd running_backend \<noteq> None" by (simp add: running_backend_def)
  have b: "scrcpyCmd (NewBackend [] []) = None" by (simp add: NewBackend_def)
  show ?thesis
    using r a b started_sys_eq
      at_most_one_session [of running_backend "env_of (exit_zero [])" "''abc123''" no_options
        "[(''scrcpy'', [])]" True started_sys]
      at_most_one_session [of "NewBackend [] []" "env_of (exit_zero [])" "''abc123''" no_options
        "[]" True started_sys]
    by simp
qed

subsection \<open>The watcher\<close>

text \<open>
  Claim C7. After a successful \<open>StartScrcpy\<close> the started process runs, its watcher is
  pending and its handle is stored. Once the process has exited on its own (no
  \<open>StopScrcpy\<close> is involved) the watcher can take its step; it clears both the handle
  and the cancellation function, and a further \<open>StartScrcpy\<close> then succeeds whenever the
  mirroring tool can be started.
\<close>

theorem watcher_returns_to_idle:
  assumes "sys_start E deviceID options s = (None, s1)"
    and "h = length (spawned s)"
    and "s2 = sys_watcher h (sys_exit h s1)"
  shows "h \<in> live s1 \<and> h \<in> watchers s1 \<and> scrcpyCmd (backend s1) = Some h
    \<and> h \<notin> live (sys_exit h s1) \<and> h \<in> watchers (sys_exit h s1)
    \<and> scrcpyCmd (backend s2) = None \<and> scrcpyCancel (backend s2) = None
    \<and> (cmd_start E (scrcpyPath (backend s)) (buildScrcpyArgs deviceID' options') = None
         \<longrightarrow> fst (sys_start E deviceID' options' s2) = None)"
proof -
  from assms(1) obtain b' lg' where
    st: "StartScrcpy E (backend s) deviceID options (spawned s) = (None, b', lg')"
    and s1: "s1 = \<lparr> backend = b', spawned = lg', live = insert (length (spawned s)) (live s),
                    watchers = insert (length (spawned s)) (watchers s) \<rparr>"
    by (auto simp: sys_start_def split: prod.splits option.splits)
  from st have b': "b' = (backend s)\<lparr> scrcpyCmd := Some h, scrcpyCancel := Some h \<rparr>"
    by (auto simp: StartScrcpy_def Let_def assms(2) split: if_splits option.splits)
  have idle: "scrcpyCmd (backend s2) = None" "scrcpyCancel (backend s2) = None"
    by (simp_all add: assms(3) sys_watcher_def sys_exit_def watcher_exit_def)
  have path: "scrcpyPath (backend s2) = scrcpyPath (backend s)"
    by (simp add: assms(3) sys_watcher_def sys_exit_def watcher_exit_def s1 b')
  have again: "fst (sys_start E deviceID' options' s2) = None"
    if "cmd_start E (scrcpyPath (backend s)) (buildScrcpyArgs deviceID' options') = None"
    using that idle path by (simp add: sys_start_def StartScrcpy_def Let_def)
  show ?thesis
    using idle again by (simp add: s1 b' assms(2) sys_exit_def)
qed

theorem watcher_returns_to_idle_witness:
  "sys_start (env_of (exit_zero [])) ''abc123'' no_options (sys_init [] []) = (None, started_sys)
   \<and> 0 \<in> live started_sys
   \<and> scrcpyCmd (backend started_sys) = Some 0
   \<and> scrcpyCmd (backend (sys_watcher 0 (sys_exit 0 started_sys))) = None
   \<and> scrcpyCancel (backend (sys_watcher 0 (sys_exit 0 started_sys))) = None
   \<and> cmd_start (env_of (exit_zero [])) (scrcpyPath (backend (sys_init [] [])))
        (buildScrcpyArgs [] no_options) = None
   \<and> fst (sys_start (env_of (exit_zero [])) [] no_options
            (sys_watcher 0 (sys_exit 0 started_sys))) = None"
proof -
  have a: "sys_start (env_of (exit_zero [])) ''abc123'' no_options (sys_init [] [])
      = (None, started_sys)"
    by (simp add: started_sys_def sys_start_def StartScrcpy_def Let_def env_of_def
        sys_init_def NewBackend_def)
  have b: "(0::nat) = length (spawned (sys_init [] []))" by (simp add: sys_init_def)
  have c: "cmd_start (env_of (exit_zero [])) (scrcpyPath (backend (sys_init [] [])))
        (buildScrcpyArgs [] no_options) = None"
    by (simp add: env_of_def)
  show ?thesis
    using a c watcher_returns_to_idle [OF a b refl, of "[]" no_options] by simp
qed

subsection \<open>The argument vector\<close>

lemma digits_are_digits: "set (digits n) \<subseteq> set ''0123456789''"
proof (induction n rule: digits.induct)
  case (1 n)
  show ?case
  proof (cases "n < 10")
    case True
    then have "''0123456789'' ! n \<in> set ''0123456789''" by (intro nth_mem) simp
    with True show ?thesis by (subst digits.simps) simp
  next
    case False
    have "''0123456789'' ! (n mod 10) \<in> set ''0123456789''" by (intro nth_mem) simp
    with False "1.IH" show ?thesis by (subst digits.simps) simp
  qed
qed

lemma Itoa_no_flag: "0 < n \<Longrightarrow> Itoa n \<notin> set scrcpy_flags"
proof
  assume pos: "0 < n" and mem: "Itoa n \<in> set scrcpy_flags"
  from mem have "CHR ''-'' \<in> set (Itoa n)" by (auto simp: scrcpy_flags_def)
  moreover from pos have "set (Itoa n) \<subseteq> set ''0123456789''"
    using digits_are_digits [of "nat n"] by (simp add: Itoa_def)
  ultimately show False by auto
qed

lemma append_if_tail: "(if c then a @ x else a) = a @ (if c then x else [])"
  by simp

lemma if_nonempty_self: "(if length e > 0 then e else []) = e"
  by (cases e) simp_all

lemma buildScrcpyArgs_segments:
  "buildScrcpyArgs deviceID options =
       (if deviceID \<noteq> [] then [''-s'', deviceID] else [])
     @ (if BitRate options \<noteq> [] then [''--bit-rate'', BitRate options] else [])
     @ (if MaxSize options > 0 then [''--max-size'', Itoa (MaxSize options)] else [])
     @ (if MaxFps options > 0 then [''--max-fps'', Itoa (MaxFps options)] else [])
     @ (if TurnScreenOff options then [''--turn-screen-off''] else [])
     @ (if Fullscreen options then [''--fullscreen''] else [])
     @ (if StayAwake options then [''--stay-awake''] else [])
     @ (if Record options \<noteq> [] then [''--record'', Record options] else [])
     @ (if WindowTitle options \<noteq> [] then [''--window-title'', WindowTitle options] else [])
     @ ExtraArgs options"
  unfolding buildScrcpyArgs_def Let_def
  by (simp only: append_if_tail if_nonempty_self) (simp only: append_Nil append_assoc)

text \<open>
  Claim C8. The argument vector is the concatenation, in this order, of one segment per
  option and of the extra arguments as they are: \<open>-s\<close> and the device identifier exactly
  when the identifier is not empty; \<open>--bit-rate\<close>, \<open>--record\<close>, \<open>--window-title\<close> and
  their string exactly when the string is not empty; \<open>--max-size\<close>, \<open>--max-fps\<close> and
  their number in decimal exactly when the number is positive; \<open>--turn-screen-off\<close>,
  \<open>--fullscreen\<close>, \<open>--stay-awake\<close> exactly when the flag is set. So, when no string the
  caller passes is itself one of the flags, a flag is in the vector exactly when its option
  is present.
\<close>

theorem flags_follow_options:
  "buildScrcpyArgs deviceID options =
       (if deviceID \<noteq> [] then [''-s'', deviceID] else [])
     @ (if BitRate options \<noteq> [] then [''--bit-rate'', BitRate options] else [])
     @ (if MaxSize options > 0 then [''--max-size'', Itoa (MaxSize options)] else [])
     @ (if MaxFps options > 0 then [''--max-fps'', Itoa (MaxFps options)] else [])
     @ (if TurnScreenOff options then [''--turn-screen-off''] else [])
     @ (if Fullscreen options then [''--fullscreen''] else [])
     @ (if StayAwake options then [''--stay-awake''] else [])
     @ (if Record options \<noteq> [] then [''--record'', Record options] else [])
     @ (if WindowTitle options \<noteq> [] then [''--window-title'', WindowTitle options] else [])
     @ ExtraArgs options
   \<and> (set (deviceID # BitRate options # Record options # WindowTitle options
             # ExtraArgs options) \<inter> set scrcpy_flags = {} \<longrightarrow>
        (''-s'' \<in> set (buildScrcpyArgs deviceID options)) = (deviceID \<noteq> [])
      \<and> (''--bit-rate'' \<in> set (buildScrcpyArgs deviceID options)) = (BitRate options \<noteq> [])
      \<and> (''--record'' \<in> set (buildScrcpyArgs deviceID options)) = (Record options \<noteq> [])
      \<and> (''--window-title'' \<in> set (buildScrcpyArgs deviceID options))
          = (WindowTitle options \<noteq> [])
      \<and> (''--max-size'' \<in> set (buildScrcpyArgs deviceID options)) = (MaxSize options > 0)
      \<and> (''--max-fps'' \<in> set (buildScrcpyArgs deviceID options)) = (MaxFps options > 0)
      \<and> (''--turn-screen-off'' \<in> set (buildScrcpyArgs deviceID options))
          = TurnScreenOff options
      \<and> (''--fullscreen'' \<in> set (buildScrcpyArgs deviceID options)) = Fullscreen options
      \<and> (''--stay-awake'' \<in> set (buildScrcpyArgs deviceID options)) = StayAwake options)"
proof (intro conjI impI)
  assume "set (deviceID # BitRate options # Record options # WindowTitle options
             # ExtraArgs options) \<inter> set scrcpy_flags = {}"
  then have user: "\<And>f. f \<in> set scrcpy_flags \<Longrightarrow>
      f \<noteq> deviceID \<and> f \<noteq> BitRate options \<and> f \<noteq> Record options
      \<and> f \<noteq> WindowTitle options \<and> f \<notin> set (ExtraArgs options)"
    by auto
  have num: "\<And>f. f \<in> set scrcpy_flags \<Longrightarrow>
      (0 < MaxSize options \<longrightarrow> f \<noteq> Itoa (MaxSize options))
      \<and> (0 < MaxFps options \<longrightarrow> f \<noteq> Itoa (MaxFps options))"
    using Itoa_no_flag by blast
  have f1: "''-s'' \<in> set scrcpy_flags" and f2: "''--bit-rate'' \<in> set scrcpy_flags"
    and f3: "''--max-size'' \<in> set scrcpy_flags" and f4: "''--max-fps'' \<in> set scrcpy_flags"
    and f5: "''--turn-screen-off'' \<in> set scrcpy_flags"
    and f6: "''--fullscreen'' \<in> set scrcpy_flags"
    and f7: "''--stay-awake'' \<in> set scrcpy_flags" and f8: "''--record'' \<in> set scrcpy_flags"
    and f9: "''--window-title'' \<in> set scrcpy_flags"
    by (simp_all add: scrcpy_flags_def)
  show "(''-s'' \<in> set (buildScrcpyArgs deviceID options)) = (deviceID \<noteq> [])"
    using user [OF f1] num [OF f1] by (auto simp: buildScrcpyArgs_segments)
  show "(''--bit-rate'' \<in> set (buildScrcpyArgs deviceID options)) = (BitRate options \<noteq> [])"
    using user [OF f2] num [OF f2] by (auto simp: buildScrcpyArgs_segments)
  show "(''--record'' \<in> set (buildScrcpyArgs deviceID options)) = (Record options \<noteq> [])"
    using user [OF f8] num [OF f8] by (auto simp: buildScrcpyArgs_segments)
  show "(''--window-title'' \<in> set (buildScrcpyArgs deviceID options))
          = (WindowTitle options \<noteq> [])"
    using user [OF f9] num [OF f9] by (auto simp: buildScrcpyArgs_segments)
  show "(''--max-size'' \<in> set (buildScrcpyArgs deviceID options)) = (MaxSize options > 0)"
    using user [OF f3] num [OF f3] by (auto simp: buildScrcpyArgs_segments)
  show "(''--max-fps'' \<in> set (buildScrcpyArgs deviceID options)) = (MaxFps options > 0)"
    using user [OF f4] num [OF f4] by (auto simp: buildScrcpyArgs_segments)
  show "(''--turn-screen-off'' \<in> set (buildScrcpyArgs deviceID options))
          = TurnScreenOff options"
    using user [OF f5] num [OF f5] by (auto simp: buildScrcpyArgs_segments)
  show "(''--fullscreen'' \<in> set (buildScrcpyArgs deviceID options)) = Fullscreen options"
    using user [OF f6] num [OF f6] by (auto simp: buildScrcpyArgs_segments)
  show "(''--stay-awake'' \<in> set (buildScrcpyArgs deviceID options)) = StayAwake options"
    using user [OF f7] num [OF f7] by (auto simp: buildScrcpyArgs_segments)
qed (rule buildScrcpyArgs_segments)

lemma some_options_args:
  "buildScrcpyArgs ''abc123'' some_options =
     [''-s'', ''abc123'', ''--bit-rate'', ''8M'', ''--max-size'', ''1024'', ''--turn-screen-off'',
      ''--window-title'', ''phone'', ''--no-audio'']"
  by code_simp

theorem flags_follow_options_witness:
  "set (''abc123'' # BitRate some_options # Record some_options # WindowTitle some_options
         # ExtraArgs some_options) \<inter> set scrcpy_flags = {}
   \<and> buildScrcpyArgs ''abc123'' some_options =
     [''-s'', ''abc123'', ''--bit-rate'', ''8M'', ''--max-size'', ''1024'', ''--turn-screen-off'',
      ''--window-title'', ''phone'', ''--no-audio'']
   \<and> ''-s'' \<in> set (buildScrcpyArgs ''abc123'' some_options)
   \<and> ''--record'' \<notin> set (buildScrcpyArgs ''abc123'' some_options)
   \<and> ''--max-fps'' \<notin> set (buildScrcpyArgs ''abc123'' some_options)
   \<and> ''--turn-screen-off'' \<in> set (buildScrcpyArgs ''abc123'' some_options)
   \<and> ''--fullscreen'' \<notin> set (buildScrcpyArgs ''abc123'' some_options)"
proof -
  have h: "set (''abc123'' # BitRate some_options # Record some_options
      # WindowTitle some_options # ExtraArgs some_options) \<inter> set scrcpy_flags = {}"
    by (simp add: some_options_def scrcpy_flags_def)
  have v: "Record some_options = [] \<and> \<not> MaxFps some_options > 0
      \<and> TurnScreenOff some_options \<and> \<not> Fullscreen some_options"
    by (simp add: some_options_def)
  show ?thesis
    using h v some_options_args flags_follow_options [of "''abc123''" some_options]
    by simp
qed

subsection \<open>Trimming\<close>

lemma space_prefix_len_runes:
  "list_all (\<lambda>w. \<forall>t. space_prefix_len (w @ t) = length w) space_runes"
  unfolding space_prefix_len_def by (simp add: space_runes_def)

lemma space_prefix_len_rune:
  "w \<in> set space_runes \<Longrightarrow> space_prefix_len (w @ t) = length w"
  using space_prefix_len_runes by (simp add: list_all_iff)

lemma space_prefix_len_Nil: "space_prefix_len [] = 0"
  by (simp add: space_runes_def space_prefix_len_def)

lemma space_suffix_len_Nil: "space_suffix_len [] = 0"
  by (simp add: space_runes_def space_suffix_len_def)

lemma space_prefix_rune:
  assumes "space_prefix_len s \<noteq> 0"
  shows "take (space_prefix_len s) s \<in> set space_runes"
proof -
  from assms obtain w where f: "find (\<lambda>w. prefix w s) space_runes = Some w"
    by (auto simp: space_prefix_len_def split: option.splits)
  then have len: "space_prefix_len s = length w" by (simp add: space_prefix_len_def)
  from find_SomeD [OF f] have "prefix w s" and mem: "w \<in> set space_runes" by simp_all
  then have "take (length w) s = w" by (auto simp: prefix_def)
  with len mem show ?thesis by simp
qed

lemma space_suffix_rune:
  assumes "space_suffix_len s \<noteq> 0"
  shows "drop (length s - space_suffix_len s) s \<in> set space_runes"
proof -
  from assms obtain w where f: "find (\<lambda>w. suffix w s) space_runes = Some w"
    by (auto simp: space_suffix_len_def split: option.splits)
  then have len: "space_suffix_len s = length w" by (simp add: space_suffix_len_def)
  from find_SomeD [OF f] have "suffix w s" and mem: "w \<in> set space_runes" by simp_all
  then have "drop (length s - length w) s = w" by (auto simp: suffix_def)
  with len mem show ?thesis by simp
qed

lemma all_space_Nil: "all_space []"
  by (simp add: all_space_def TrimLeft.simps space_prefix_len_Nil)

lemma all_space_rune_append:
  assumes "w \<in> set space_runes" and "all_space t"
  shows "all_space (w @ t)"
proof -
  have "space_prefix_len (w @ t) = length w" by (rule space_prefix_len_rune [OF assms(1)])
  moreover have "length w \<noteq> 0" using space_runes_nonempty [OF assms(1)] by simp
  ultimately have "TrimLeft (w @ t) = TrimLeft t" by (subst TrimLeft.simps) simp
  with assms(2) show ?thesis by (simp add: all_space_def)
qed

lemma all_space_append: "all_space a \<Longrightarrow> all_space b \<Longrightarrow> all_space (a @ b)"
proof (induction a rule: TrimLeft.induct)
  case (1 s)
  show ?case
  proof (cases "space_prefix_len s = 0")
    case True
    with "1.prems"(1) have "s = []" by (simp add: all_space_def TrimLeft.simps)
    with "1.prems"(2) show ?thesis by simp
  next
    case False
    let ?k = "space_prefix_len s"
    from False "1.prems"(1) have "all_space (drop ?k s)"
      by (simp add: all_space_def TrimLeft.simps [of s])
    with "1.IH" False "1.prems"(2) have "all_space (drop ?k s @ b)" by simp
    with space_prefix_rune [OF False] have "all_space (take ?k s @ (drop ?k s @ b))"
      by (rule all_space_rune_append)
    then show ?thesis by (simp flip: append_assoc)
  qed
qed

lemma TrimLeft_spec:
  "space_prefix_len (TrimLeft s) = 0 \<and> (\<exists>l. all_space l \<and> s = l @ TrimLeft s)"
proof (induction s rule: TrimLeft.induct)
  case (1 s)
  show ?case
  proof (cases "space_prefix_len s = 0")
    case True
    then have "TrimLeft s = s" by (simp add: TrimLeft.simps)
    with True all_space_Nil show ?thesis by (intro conjI exI [of _ "[]"]) simp_all
  next
    case False
    let ?k = "space_prefix_len s"
    from False have eq: "TrimLeft s = TrimLeft (drop ?k s)" by (simp add: TrimLeft.simps [of s])
    from "1.IH" False obtain l where l: "all_space l" "drop ?k s = l @ TrimLeft (drop ?k s)"
      and z: "space_prefix_len (TrimLeft (drop ?k s)) = 0"
      by blast
    have "all_space (take ?k s @ l)"
      using space_prefix_rune [OF False] l(1) by (rule all_space_rune_append)
    moreover have "s = (take ?k s @ l) @ TrimLeft s"
      using l(2) eq by (metis append_assoc append_take_drop_id)
    ultimately show ?thesis using z eq by auto
  qed
qed

lemma TrimRight_spec:
  "space_suffix_len (TrimRight s) = 0 \<and> (\<exists>r. all_space r \<and> s = TrimRight s @ r)"
proof (induction s rule: TrimRight.induct)
  case (1 s)
  show ?case
  proof (cases "space_suffix_len s = 0")
    case True
    then have "TrimRight s = s" by (simp add: TrimRight.simps)
    with True all_space_Nil show ?thesis by (intro conjI exI [of _ "[]"]) simp_all
  next
    case False
    let ?n = "length s - space_suffix_len s"
    from False have eq: "TrimRight s = TrimRight (take ?n s)"
      by (simp add: TrimRight.simps [of s])
    from "1.IH" False obtain r where r: "all_space r" "take ?n s = TrimRight (take ?n s) @ r"
      and z: "space_suffix_len (TrimRight (take ?n s)) = 0"
      by blast
    have "all_space (drop ?n s @ [])"
      using space_suffix_rune [OF False] all_space_Nil by (rule all_space_rune_append)
    then have "all_space (r @ drop ?n s)" using r(1) by (simp add: all_space_append)
    moreover have "s = TrimRight s @ (r @ drop ?n s)"
      using r(2) eq by (metis append_assoc append_take_drop_id)
    ultimately show ?thesis using z eq by auto
  qed
qed

lemma TrimRight_prefix: "prefix (TrimRight s) s"
  using TrimRight_spec [of s] by (auto simp: prefix_def)

lemma space_prefix_len_mono:
  assumes "prefix t s" and "space_prefix_len s = 0"
  shows "space_prefix_len t = 0"
proof (rule ccontr)
  assume "space_prefix_len t \<noteq> 0"
  then obtain w where f: "find (\<lambda>w. prefix w t) space_runes = Some w"
    by (auto simp: space_prefix_len_def split: option.splits)
  from find_SomeD [OF f] assms(1) have "prefix w s" and "w \<in> set space_runes"
    by (auto intro: prefix_order.trans)
  then have "find (\<lambda>w. prefix w s) space_runes \<noteq> None" by (auto simp: find_None_iff)
  then obtain w' where f': "find (\<lambda>w. prefix w s) space_runes = Some w'" by auto
  from find_SomeD [OF f'] have "w' \<noteq> []" by (auto dest: space_runes_nonempty)
  with f' assms(2) show False by (simp add: space_prefix_len_def)
qed

lemma TrimSpace_spec:
  "space_prefix_len (TrimSpace s) = 0 \<and> space_suffix_len (TrimSpace s) = 0
   \<and> (\<exists>l r. all_space l \<and> all_space r \<and> s = l @ TrimSpace s @ r)"
proof -
  from TrimLeft_spec [of s] obtain l where l: "all_space l" "s = l @ TrimLeft s"
    and zl: "space_prefix_len (TrimLeft s) = 0" by blast
  from TrimRight_spec [of "TrimLeft s"] obtain r where
    r: "all_space r" "TrimLeft s = TrimSpace s @ r"
    and zr: "space_suffix_len (TrimSpace s) = 0" by (auto simp: TrimSpace_def)
  have "space_prefix_len (TrimSpace s) = 0"
    unfolding TrimSpace_def using TrimRight_prefix zl by (rule space_prefix_len_mono)
  moreover have "s = l @ TrimSpace s @ r" using l(2) r(2) by simp
  ultimately show ?thesis using zr l(1) r(1) by blast
qed

subsection \<open>Bounded command execution\<close>

text \<open>
  Claim C9. \<open>runCommand\<close> returns the standard output and the standard error of the
  process, each trimmed on its own: what is returned has no white space rune at either end
  and differs from the captured bytes by white space at the two ends only. When \<open>Run\<close>
  returns no error, no error is returned. When \<open>Run\<close> returns an error that is no timeout
  (an exit error for a non-zero exit status, with the context still alive), the error
  returned has kind \<open>command_failed\<close> and carries the trimmed output, the trimmed error
  output, the exit code and the cause.
\<close>

theorem runCommand_trims_and_reports:
  assumes "runCommand E timeout command args lg = ((outStr, errStr, res), lg')"
    and "r = cmd_run E timeout command args"
  shows "outStr = TrimSpace (out_bytes r) \<and> errStr = TrimSpace (err_bytes r)
    \<and> space_prefix_len outStr = 0 \<and> space_suffix_len outStr = 0
    \<and> (\<exists>l t. all_space l \<and> all_space t \<and> out_bytes r = l @ outStr @ t)
    \<and> space_prefix_len errStr = 0 \<and> space_suffix_len errStr = 0
    \<and> (\<exists>l t. all_space l \<and> all_space t \<and> err_bytes r = l @ errStr @ t)
    \<and> (run_err r = None \<longrightarrow> res = None)
    \<and> (\<forall>e. run_err r = Some e \<and> \<not> isTimeout (Some e) \<and> ctx_err r = None \<longrightarrow>
          (\<exists>u. res = Some u \<and> Kind u = ErrorKindCommandFailed \<and> Command u = command
             \<and> Stdout u = outStr \<and> Stderr u = errStr \<and> ExitCode u = exit_code_of e
             \<and> Err u = Some e))
    \<and> (\<forall>code. run_err r = Some (ExitError code) \<and> ctx_err r = None \<longrightarrow>
          (\<exists>u. res = Some u \<and> Kind u = ErrorKindCommandFailed
             \<and> Stdout u = outStr \<and> Stderr u = errStr \<and> ExitCode u = code))"
proof -
  from assms have out: "outStr = TrimSpace (out_bytes r)"
    and err: "errStr = TrimSpace (err_bytes r)"
    by (auto simp: runCommand_def Let_def split: option.splits if_splits)
  have zero: "run_err r = None \<longrightarrow> res = None"
    using assms by (auto simp: runCommand_def Let_def split: option.splits if_splits)
  have fail: "\<forall>e. run_err r = Some e \<and> \<not> isTimeout (Some e) \<and> ctx_err r = None \<longrightarrow>
          (\<exists>u. res = Some u \<and> Kind u = ErrorKindCommandFailed \<and> Command u = command
             \<and> Stdout u = outStr \<and> Stderr u = errStr \<and> ExitCode u = exit_code_of e
             \<and> Err u = Some e)"
    using assms
    by (auto simp: runCommand_def Let_def newCommandFailedError_def split: option.splits)
  have code: "\<forall>code. run_err r = Some (ExitError code) \<and> ctx_err r = None \<longrightarrow>
          (\<exists>u. res = Some u \<and> Kind u = ErrorKindCommandFailed
             \<and> Stdout u = outStr \<and> Stderr u = errStr \<and> ExitCode u = code)"
  proof (intro allI impI)
    fix code
    assume "run_err r = Some (ExitError code) \<and> ctx_err r = None"
    then have "run_err r = Some (ExitError code) \<and> \<not> isTimeout (Some (ExitError code))
        \<and> ctx_err r = None"
      by (simp add: isTimeout_def)
    with fail obtain u where "res = Some u \<and> Kind u = ErrorKindCommandFailed
        \<and> Command u = command \<and> Stdout u = outStr \<and> Stderr u = errStr
        \<and> ExitCode u = exit_code_of (ExitError code) \<and> Err u = Some (ExitError code)"
      by blast
    then show "\<exists>u. res = Some u \<and> Kind u = ErrorKindCommandFailed
        \<and> Stdout u = outStr \<and> Stderr u = errStr \<and> ExitCode u = code"
      by simp
  qed
  have o1: "space_prefix_len outStr = 0" and o2: "space_suffix_len outStr = 0"
    and o3: "\<exists>l t. all_space l \<and> all_space t \<and> out_bytes r = l @ outStr @ t"
    using TrimSpace_spec [of "out_bytes r"] unfolding out by blast+
  have e1: "space_prefix_len errStr = 0" and e2: "space_suffix_len errStr = 0"
    and e3: "\<exists>l t. all_space l \<and> all_space t \<and> err_bytes r = l @ errStr @ t"
    using TrimSpace_spec [of "err_bytes r"] unfolding err by blast+
  show ?thesis
  proof (intro conjI)
    show "outStr = TrimSpace (out_bytes r)" by (fact out)
    show "errStr = TrimSpace (err_bytes r)" by (fact err)
  qed (fact o1 o2 o3 e1 e2 e3 zero fail code)+
qed

lemma run_failed_outcome:
  "runCommand (env_of failed_outcome) defaultAdbTimeout ''adb'' [''devices''] [] =
     ((''partial output'', ''adb: device offline'',
       Some (newCommandFailedError ''adb'' ''partial output'' ''adb: device offline'' 1
               (Some (ExitError 1)))),
      [(''adb'', [''devices''])])"
  by code_simp

theorem runCommand_trims_and_reports_witness:
  "runCommand (env_of failed_outcome) defaultAdbTimeout ''adb'' [''devices''] [] =
     ((''partial output'', ''adb: device offline'',
       Some (newCommandFailedError ''adb'' ''partial output'' ''adb: device offline'' 1
               (Some (ExitError 1)))),
      [(''adb'', [''devices''])])
   \<and> run_err failed_outcome = Some (ExitError 1) \<and> ctx_err failed_outcome = None
   \<and> ''partial output'' = TrimSpace (out_bytes failed_outcome)
   \<and> ''adb: device offline'' = TrimSpace (err_bytes failed_outcome)
   \<and> space_prefix_len ''partial output'' = 0 \<and> space_suffix_len ''partial output'' = 0
   \<and> Kind (newCommandFailedError ''adb'' ''partial output'' ''adb: device offline'' 1
              (Some (ExitError 1))) = ErrorKindCommandFailed
   \<and> ExitCode (newCommandFailedError ''adb'' ''partial output'' ''adb: device offline'' 1
              (Some (ExitError 1))) = 1"
proof -
  have r: "failed_outcome = cmd_run (env_of failed_outcome) defaultAdbTimeout ''adb'' [''devices'']"
    by (simp add: env_of_def)
  have e: "run_err failed_outcome = Some (ExitError 1)" "ctx_err failed_outcome = None"
    by (simp_all add: failed_outcome_def)
  note T = runCommand_trims_and_reports [OF run_failed_outcome r]
  from T have a: "''partial output'' = TrimSpace (out_bytes failed_outcome)"
    and b: "''adb: device offline'' = TrimSpace (err_bytes failed_outcome)"
    and c: "space_prefix_len ''partial output'' = 0"
    and d: "space_suffix_len ''partial output'' = 0"
    by - (elim conjE, assumption)+
  have k: "Kind (newCommandFailedError ''adb'' ''partial output'' ''adb: device offline'' 1
              (Some (ExitError 1))) = ErrorKindCommandFailed"
    "ExitCode (newCommandFailedError ''adb'' ''partial output'' ''adb: device offline'' 1
              (Some (ExitError 1))) = 1"
    by (simp_all add: newCommandFailedError_def)
  show ?thesis by (intro conjI) (fact run_failed_outcome e a b c d k)+
qed

subsection \<open>Deadlines\<close>

text \<open>
  Claim C3, as the code has it. A deadline that passes, or a cancellation, before the
  process has completed shows in \<open>runCommand\<close> in this way: \<open>Run\<close> returns an error, and
  that error is one of the two sentinels of package \<open>context\<close> or \<open>ctx.Err()\<close> is not
  \<open>nil\<close>. Then the error returned has kind \<open>timeout\<close>, never \<open>command_failed\<close>, also
  when the error of \<open>Run\<close> is the exit error of the killed process. Its cause is the error
  that \<open>Run\<close> returned: the expiry signal when \<open>Run\<close> returned that signal, the exit error
  otherwise. The trimmed output is returned beside the error.
\<close>

theorem deadline_reports_timeout:
  assumes "r = cmd_run E timeout command args"
    and "run_err r = Some e"
    and "isTimeout (Some e) \<or> ctx_err r \<noteq> None"
  shows "\<exists>u. runCommand E timeout command args lg =
             ((TrimSpace (out_bytes r), TrimSpace (err_bytes r), Some u),
              lg @ [(command, args)])
           \<and> Kind u = ErrorKindTimeout \<and> Kind u \<noteq> ErrorKindCommandFailed
           \<and> Command u = command \<and> Err u = Some e
           \<and> (isTimeout (Some e) \<longrightarrow> isTimeout (Err u))"
  using assms by (auto simp: runCommand_def Let_def newTimeoutError_def)

lemma run_killed_outcome:
  "runCommand (env_of killed_outcome) defaultAdbTimeout ''adb'' [''devices''] [] =
     ((''* daemon started'', ''adb: waiting'',
       Some (newTimeoutError ''adb'' (Some (ExitError (- 1))))),
      [(''adb'', [''devices''])])"
  by code_simp

theorem deadline_reports_timeout_witness:
  "run_err killed_outcome = Some (ExitError (- 1))
   \<and> (isTimeout (Some (ExitError (- 1))) \<or> ctx_err killed_outcome \<noteq> None)
   \<and> (\<exists>u. runCommand (env_of killed_outcome) defaultAdbTimeout ''adb'' [''devices''] [] =
             ((TrimSpace (out_bytes killed_outcome), TrimSpace (err_bytes killed_outcome),
               Some u), [] @ [(''adb'', [''devices''])])
           \<and> Kind u = ErrorKindTimeout \<and> Kind u \<noteq> ErrorKindCommandFailed
           \<and> Command u = ''adb'' \<and> Err u = Some (ExitError (- 1)))"
proof -
  have r: "killed_outcome = cmd_run (env_of killed_outcome) defaultAdbTimeout ''adb'' [''devices'']"
    by (simp add: env_of_def)
  have e: "run_err killed_outcome = Some (ExitError (- 1))"
    by (simp add: killed_outcome_def)
  have c: "isTimeout (Some (ExitError (- 1))) \<or> ctx_err killed_outcome \<noteq> None"
    by (simp add: killed_outcome_def)
  from deadline_reports_timeout [OF r e c, of "[]"] e c show ?thesis by blast
qed

text \<open>
  The claim as it was stated asks for the expiry signal as the cause. When the deadline
  passes and the process is killed, \<open>Run\<close> returns the exit error of the killed process
  while \<open>ctx.Err()\<close> is \<open>context.DeadlineExceeded\<close>; the cause of the error returned is the
  exit error, which \<open>isTimeout\<close> does not take for an expiry signal.
\<close>

theorem timeout_cause_counterexample:
  "ctx_err killed_outcome = Some DeadlineExceeded
   \<and> map_option Kind (snd (snd (fst
        (runCommand (env_of killed_outcome) defaultAdbTimeout ''adb'' [''devices''] []))))
      = Some ErrorKindTimeout
   \<and> map_option Err (snd (snd (fst
        (runCommand (env_of killed_outcome) defaultAdbTimeout ''adb'' [''devices''] []))))
      = Some (Some (ExitError (- 1)))
   \<and> Some (ExitError (- 1)) \<noteq> ctx_err killed_outcome
   \<and> \<not> isTimeout (Some (ExitError (- 1)))"
proof -
  have c: "ctx_err killed_outcome = Some DeadlineExceeded" by (simp add: killed_outcome_def)
  have k: "map_option Kind (snd (snd (fst
        (runCommand (env_of killed_outcome) defaultAdbTimeout ''adb'' [''devices''] []))))
      = Some ErrorKindTimeout"
    unfolding run_killed_outcome by (simp add: newTimeoutError_def)
  have e: "map_option Err (snd (snd (fst
        (runCommand (env_of killed_outcome) defaultAdbTimeout ''adb'' [''devices''] []))))
      = Some (Some (ExitError (- 1)))"
    unfolding run_killed_outcome by (simp add: newTimeoutError_def)
  have n: "Some (ExitError (- 1)) \<noteq> ctx_err killed_outcome" by (simp add: c)
  have t: "\<not> isTimeout (Some (ExitError (- 1)))" by (simp add: isTimeout_def)
  show ?thesis by (intro conjI) (fact c k e n t)+
qed

subsection \<open>What an error keeps of the output\<close>















subsection \<open>Classifying the output\<close>

lemma containsAny_iff: "containsAny E haystack needles = (\<exists>p \<in> set needles. spec_occurs E p haystack)"
  by (induction needles) (auto simp: Contains_def spec_occurs_def)

text \<open>On ASCII text, a phrase occurs exactly when some substring of the text equals it once
  both are put in lower case.\<close>

lemma spec_occurs_ascii:
  assumes "is_ascii s" and "is_ascii p"
  shows "spec_occurs E p s = (\<exists>q. sublist q s \<and> map lower_byte q = map lower_byte p)"
proof
  assume "spec_occurs E p s"
  with assms have "sublist (map lower_byte p) (map lower_byte s)"
    by (simp add: spec_occurs_def ToLower_def)
  then obtain xs ys where "map lower_byte s = xs @ map lower_byte p @ ys"
    by (auto simp: sublist_def)
  then have "\<exists>us vs. s = us @ vs \<and> xs = map lower_byte us
      \<and> map lower_byte p @ ys = map lower_byte vs"
    by (simp only: map_eq_append_conv)
  then obtain a t where st: "s = a @ t" and t: "map lower_byte p @ ys = map lower_byte t"
    by blast
  from t have "\<exists>us vs. t = us @ vs \<and> map lower_byte p = map lower_byte us
      \<and> ys = map lower_byte vs"
    by (simp only: append_eq_map_conv)
  then obtain q c where "t = q @ c" and "map lower_byte p = map lower_byte q" by blast
  with st have "s = a @ q @ c" and "map lower_byte q = map lower_byte p" by simp_all
  then show "\<exists>q. sublist q s \<and> map lower_byte q = map lower_byte p" by auto
next
  assume "\<exists>q. sublist q s \<and> map lower_byte q = map lower_byte p"
  then obtain q where "sublist q s" and q: "map lower_byte q = map lower_byte p" by blast
  then have "sublist (map lower_byte q) (map lower_byte s)" by (intro map_mono_sublist)
  with q assms show "spec_occurs E p s" by (simp add: spec_occurs_def ToLower_def)
qed

lemma runAdb_zero_exit:
  assumes "run_err (cmd_run E (adbTimeout b) (adbPath b) args) = None"
  shows "runAdb E b args lg =
     ((TrimSpace (out_bytes (cmd_run E (adbTimeout b) (adbPath b) args)),
       TrimSpace (err_bytes (cmd_run E (adbTimeout b) (adbPath b) args)), None),
      lg @ [(adbPath b, args)])"
  using assms by (simp add: runAdb_def runCommand_def Let_def)

lemma PairDevice_classifies:
  assumes "ip \<noteq> [] \<and> 0 < port \<and> code \<noteq> []"
    and "run_err (cmd_run E (adbTimeout b) (adbPath b)
            [''pair'', ip @ '':'' @ Itoa port, code]) = None"
  shows "map_option Kind (fst (PairDevice E b ip port code lg)) =
     spec_outcome E [''Successfully paired to'', ''already paired''] [''failed'', ''error'']
       (TrimSpace (out_bytes (cmd_run E (adbTimeout b) (adbPath b)
          [''pair'', ip @ '':'' @ Itoa port, code])))"
proof -
  note R = runAdb_zero_exit [OF assms(2), of lg]
  show ?thesis
    using assms(1) unfolding PairDevice_def Let_def R containsAny_iff spec_outcome_def
    by (simp add: newCommandFailedError_def newParseError_def)
qed

lemma ConnectDevice_classifies:
  assumes "ip \<noteq> [] \<and> 0 < port"
    and "run_err (cmd_run E (adbTimeout b) (adbPath b)
            [''connect'', ip @ '':'' @ Itoa port]) = None"
  shows "map_option Kind (fst (ConnectDevice E b ip port lg)) =
     spec_outcome E [''connected to'', ''already connected''] [''failed'', ''unable'']
       (TrimSpace (out_bytes (cmd_run E (adbTimeout b) (adbPath b)
          [''connect'', ip @ '':'' @ Itoa port])))"
proof -
  note R = runAdb_zero_exit [OF assms(2), of lg]
  show ?thesis
    using assms(1) unfolding ConnectDevice_def Let_def R containsAny_iff spec_outcome_def
    by (simp add: newCommandFailedError_def newParseError_def)
qed

lemma EnableTCPIP_classifies:
  assumes "0 < port"
    and "run_err (cmd_run E (adbTimeout b) (adbPath b) [''tcpip'', Itoa port]) = None"
  shows "map_option Kind (fst (EnableTCPIP E b port lg)) =
     spec_outcome E [''restarting in TCP mode'', ''already in tcp''] []
       (TrimSpace (out_bytes (cmd_run E (adbTimeout b) (adbPath b) [''tcpip'', Itoa port])))"
proof -
  note R = runAdb_zero_exit [OF assms(2), of lg]
  show ?thesis
    using assms(1) unfolding EnableTCPIP_def Let_def R containsAny_iff spec_outcome_def
    by (simp add: newParseError_def)
qed

lemma DisconnectDevice_classifies:
  assumes "ip \<noteq> [] \<and> 0 < port"
    and "run_err (cmd_run E (adbTimeout b) (adbPath b)
            [''disconnect'', ip @ '':'' @ Itoa port]) = None"
  shows "map_option Kind (fst (DisconnectDevice E b ip port lg)) =
     spec_outcome E [''disconnected'', ''no such device''] []
       (TrimSpace (out_bytes (cmd_run E (adbTimeout b) (adbPath b)
          [''disconnect'', ip @ '':'' @ Itoa port])))"
proof -
  note R = runAdb_zero_exit [OF assms(2), of lg]
  show ?thesis
    using assms(1) unfolding DisconnectDevice_def Let_def R containsAny_iff spec_outcome_def
    by (simp add: newParseError_def)
qed

text \<open>
  Claim C1, as the code has it. For Pair, Connect, EnableTCPIP and Disconnect (not for
  \<open>ListDevices\<close>, see below), with arguments that pass the
  validation and a command that exits with status 0, the kind of the result is the one the
  classification of the specification gives on the trimmed standard output, with the
  phrase groups of the operation: success as soon as a success phrase occurs, whatever else
  occurs; otherwise \<open>command_failed\<close> when a failure phrase occurs; otherwise \<open>parse\<close>.
  The failure groups of EnableTCPIP and Disconnect are empty.
\<close>

theorem output_classified_in_order:
  "(ip \<noteq> [] \<and> 0 < port \<and> code \<noteq> []
      \<and> run_err (cmd_run E (adbTimeout b) (adbPath b)
            [''pair'', ip @ '':'' @ Itoa port, code]) = None \<longrightarrow>
    map_option Kind (fst (PairDevice E b ip port code lg)) =
      spec_outcome E [''Successfully paired to'', ''already paired''] [''failed'', ''error'']
        (TrimSpace (out_bytes (cmd_run E (adbTimeout b) (adbPath b)
           [''pair'', ip @ '':'' @ Itoa port, code]))))
   \<and> (ip \<noteq> [] \<and> 0 < port
      \<and> run_err (cmd_run E (adbTimeout b) (adbPath b)
            [''connect'', ip @ '':'' @ Itoa port]) = None \<longrightarrow>
    map_option Kind (fst (ConnectDevice E b ip port lg)) =
      spec_outcome E [''connected to'', ''already connected''] [''failed'', ''unable'']
        (TrimSpace (out_bytes (cmd_run E (adbTimeout b) (adbPath b)
           [''connect'', ip @ '':'' @ Itoa port]))))
   \<and> (0 < port
      \<and> run_err (cmd_run E (adbTimeout b) (adbPath b) [''tcpip'', Itoa port]) = None \<longrightarrow>
    map_option Kind (fst (EnableTCPIP E b port lg)) =
      spec_outcome E [''restarting in TCP mode'', ''already in tcp''] []
        (TrimSpace (out_bytes (cmd_run E (adbTimeout b) (adbPath b) [''tcpip'', Itoa port]))))
   \<and> (ip \<noteq> [] \<and> 0 < port
      \<and> run_err (cmd_run E (adbTimeout b) (adbPath b)
            [''disconnect'', ip @ '':'' @ Itoa port]) = None \<longrightarrow>
    map_option Kind (fst (DisconnectDevice E b ip port lg)) =
      spec_outcome E [''disconnected'', ''no such device''] []
        (TrimSpace (out_bytes (cmd_run E (adbTimeout b) (adbPath b)
           [''disconnect'', ip @ '':'' @ Itoa port]))))"
  using PairDevice_classifies [of ip port code E b lg]
    ConnectDevice_classifies [of ip port E b lg]
    EnableTCPIP_classifies [of port E b lg]
    DisconnectDevice_classifies [of ip port E b lg]
  by blast

lemma mixed_output_trimmed:
  "TrimSpace (out_bytes (exit_zero mixed_output)) =
     ''FAILED once, then SUCCESSFULLY PAIRED TO 192.168.1.5:5555''"
  by code_simp

lemma mixed_output_outcomes:
  "spec_outcome (env_of (exit_zero mixed_output))
     [''Successfully paired to'', ''already paired''] [''failed'', ''error'']
     ''FAILED once, then SUCCESSFULLY PAIRED TO 192.168.1.5:5555'' = None"
  "spec_outcome (env_of (exit_zero mixed_output))
     [''connected to'', ''already connected''] [''failed'', ''unable'']
     ''FAILED once, then SUCCESSFULLY PAIRED TO 192.168.1.5:5555''
     = Some ErrorKindCommandFailed"
  "spec_outcome (env_of (exit_zero mixed_output))
     [''restarting in TCP mode'', ''already in tcp''] []
     ''FAILED once, then SUCCESSFULLY PAIRED TO 192.168.1.5:5555'' = Some ErrorKindParse"
  "spec_outcome (env_of (exit_zero mixed_output))
     [''disconnected'', ''no such device''] []
     ''FAILED once, then SUCCESSFULLY PAIRED TO 192.168.1.5:5555'' = Some ErrorKindParse"
  by code_simp+

theorem output_classified_in_order_witness:
  "''192.168.1.5'' \<noteq> [] \<and> (0::int) < 5555 \<and> ''123456'' \<noteq> []
   \<and> run_err (exit_zero mixed_output) = None
   \<and> spec_occurs (env_of (exit_zero mixed_output)) ''failed''
        ''FAILED once, then SUCCESSFULLY PAIRED TO 192.168.1.5:5555''
   \<and> map_option Kind (fst (PairDevice (env_of (exit_zero mixed_output)) (NewBackend [] [])
        ''192.168.1.5'' 5555 ''123456'' [])) = None
   \<and> map_option Kind (fst (ConnectDevice (env_of (exit_zero mixed_output)) (NewBackend [] [])
        ''192.168.1.5'' 5555 [])) = Some ErrorKindCommandFailed
   \<and> map_option Kind (fst (EnableTCPIP (env_of (exit_zero mixed_output)) (NewBackend [] [])
        5555 [])) = Some ErrorKindParse
   \<and> map_option Kind (fst (DisconnectDevice (env_of (exit_zero mixed_output))
        (NewBackend [] []) ''192.168.1.5'' 5555 [])) = Some ErrorKindParse"
proof -
  let ?E = "env_of (exit_zero mixed_output)"
  let ?b = "NewBackend [] []"
  have r: "cmd_run ?E x y z = exit_zero mixed_output" for x y z by (simp add: env_of_def)
  have z: "run_err (exit_zero mixed_output) = None" by (simp add: exit_zero_def)
  have v: "''192.168.1.5'' \<noteq> [] \<and> (0::int) < 5555 \<and> ''123456'' \<noteq> []" by simp
  have f: "spec_occurs ?E ''failed''
      ''FAILED once, then SUCCESSFULLY PAIRED TO 192.168.1.5:5555''"
    by code_simp
  note T = output_classified_in_order [of "''192.168.1.5''" 5555 "''123456''" ?E ?b "[]",
      unfolded r mixed_output_trimmed mixed_output_outcomes]
  from T v z have p: "map_option Kind (fst (PairDevice ?E ?b ''192.168.1.5'' 5555 ''123456'' []))
      = None" by blast
  from T v z have c: "map_option Kind (fst (ConnectDevice ?E ?b ''192.168.1.5'' 5555 []))
      = Some ErrorKindCommandFailed" by blast
  from T v z have t: "map_option Kind (fst (EnableTCPIP ?E ?b 5555 [])) = Some ErrorKindParse"
    by blast
  from T v z have d: "map_option Kind (fst (DisconnectDevice ?E ?b ''192.168.1.5'' 5555 []))
      = Some ErrorKindParse" by blast
  from v have v1: "''192.168.1.5'' \<noteq> []" and v2: "(0::int) < 5555" and v3: "''123456'' \<noteq> []"
    by simp_all
  show ?thesis by (intro conjI) (fact v1 v2 v3 z f p c t d)+
qed

text \<open>
  The claim C1 as it was stated speaks of every bridge operation, and \<open>ListDevices\<close> is
  one. It never calls \<open>containsAny\<close>: it has no phrase groups and parses each line into
  a device. When \<open>adb devices\<close> exits with status 0, a line that has the failure phrases
  \<open>error\<close> and \<open>failed\<close> in it gives a device and not \<open>command_failed\<close>, and a
  line that has no phrase of any group in it gives a device and not \<open>parse\<close>.
\<close>

lemma listing_output_trimmed:
  "TrimSpace (out_bytes (exit_zero listing_output)) = ''error: failed to list\<newline>foo bar''"
  "TrimSpace (err_bytes (exit_zero listing_output)) = []"
  by code_simp+

lemma listing_output_parsed:
  "parse_lines ''error: failed to list\<newline>foo bar'' []
     (SplitLines ''error: failed to list\<newline>foo bar'') [] =
   ([\<lparr> ID = ''error:'', State = ''failed'' \<rparr>, \<lparr> ID = ''foo'', State = ''bar'' \<rparr>], None)"
  by code_simp

lemma listing_output_phrases:
  "containsAny (env_of (exit_zero listing_output)) ''error: failed to list\<newline>foo bar''
     [''failed'', ''error'']"
  "\<not> containsAny (env_of (exit_zero listing_output)) ''foo bar''
     [''Successfully paired to'', ''already paired'', ''connected to'', ''already connected'',
      ''restarting in TCP mode'', ''already in tcp'', ''disconnected'', ''no such device'',
      ''failed'', ''error'', ''unable'']"
  by code_simp+

theorem listing_not_classified_counterexample:
  "run_err (exit_zero listing_output) = None
   \<and> containsAny (env_of (exit_zero listing_output))
        (TrimSpace (out_bytes (exit_zero listing_output))) [''failed'', ''error'']
   \<and> \<not> containsAny (env_of (exit_zero listing_output)) ''foo bar''
        [''Successfully paired to'', ''already paired'', ''connected to'', ''already connected'',
         ''restarting in TCP mode'', ''already in tcp'', ''disconnected'', ''no such device'',
         ''failed'', ''error'', ''unable'']
   \<and> fst (ListDevices (env_of (exit_zero listing_output)) (NewBackend [] []) []) =
       ([\<lparr> ID = ''error:'', State = ''failed'' \<rparr>, \<lparr> ID = ''foo'', State = ''bar'' \<rparr>], None)"
proof -
  let ?E = "env_of (exit_zero listing_output)"
  let ?b = "NewBackend [] []"
  have r: "cmd_run ?E x y z = exit_zero listing_output" for x y z by (simp add: env_of_def)
  have z: "run_err (exit_zero listing_output) = None" by (simp add: exit_zero_def)
  have run: "runAdb ?E ?b [''devices''] [] =
      ((''error: failed to list\<newline>foo bar'', [], None), [] @ [(adbPath ?b, [''devices''])])"
    using runAdb_zero_exit [of ?E ?b "[''devices'']" "[]"] z
    unfolding r listing_output_trimmed by simp
  have l: "fst (ListDevices ?E ?b []) =
      ([\<lparr> ID = ''error:'', State = ''failed'' \<rparr>, \<lparr> ID = ''foo'', State = ''bar'' \<rparr>], None)"
    unfolding ListDevices_def run by (simp add: listing_output_parsed)
  show ?thesis
    unfolding listing_output_trimmed
    by (intro conjI) (fact z listing_output_phrases l)+
qed

subsection \<open>Operations without a failure group\<close>

text \<open>
  The claim C6 as it was stated fails: \<open>EnableTCPIP\<close> and \<open>DisconnectDevice\<close> look for
  their success phrases only. An output of a command that exited with status 0 which has
  \<open>failed\<close>, \<open>unable\<close> and \<open>error\<close> in it, and no success phrase, gives \<open>parse\<close> and
  not \<open>command_failed\<close>.
\<close>

lemma failure_output_trimmed:
  "TrimSpace (out_bytes (exit_zero failure_output)) =
     ''failed to restart adbd: unable to open port, error 13''"
  by code_simp

lemma failure_output_outcomes:
  "spec_outcome (env_of (exit_zero failure_output))
     [''restarting in TCP mode'', ''already in tcp''] []
     ''failed to restart adbd: unable to open port, error 13'' = Some ErrorKindParse"
  "spec_outcome (env_of (exit_zero failure_output))
     [''disconnected'', ''no such device''] []
     ''failed to restart adbd: unable to open port, error 13'' = Some ErrorKindParse"
  by code_simp+

lemma failure_output_phrases:
  "containsAny (env_of (exit_zero failure_output))
     ''failed to restart adbd: unable to open port, error 13'' [''failed'']"
  "containsAny (env_of (exit_zero failure_output))
     ''failed to restart adbd: unable to open port, error 13'' [''error'']"
  "containsAny (env_of (exit_zero failure_output))
     ''failed to restart adbd: unable to open port, error 13'' [''unable'']"
  "\<not> containsAny (env_of (exit_zero failure_output))
     ''failed to restart adbd: unable to open port, error 13''
     [''restarting in TCP mode'', ''already in tcp'']"
  "\<not> containsAny (env_of (exit_zero failure_output))
     ''failed to restart adbd: unable to open port, error 13''
     [''disconnected'', ''no such device'']"
  by code_simp+

theorem failure_phrase_gives_parse_counterexample:
  "run_err (exit_zero failure_output) = None
   \<and> containsAny (env_of (exit_zero failure_output))
        (TrimSpace (out_bytes (exit_zero failure_output))) [''failed'']
   \<and> containsAny (env_of (exit_zero failure_output))
        (TrimSpace (out_bytes (exit_zero failure_output))) [''error'']
   \<and> containsAny (env_of (exit_zero failure_output))
        (TrimSpace (out_bytes (exit_zero failure_output))) [''unable'']
   \<and> map_option Kind (fst (EnableTCPIP (env_of (exit_zero failure_output)) (NewBackend [] [])
        5555 [])) = Some ErrorKindParse
   \<and> map_option Kind (fst (DisconnectDevice (env_of (exit_zero failure_output))
        (NewBackend [] []) ''192.168.1.5'' 5555 [])) = Some ErrorKindParse"
proof -
  let ?E = "env_of (exit_zero failure_output)"
  let ?b = "NewBackend [] []"
  have r: "cmd_run ?E x y z = exit_zero failure_output" for x y z by (simp add: env_of_def)
  have z: "run_err (exit_zero failure_output) = None" by (simp add: exit_zero_def)
  have t: "map_option Kind (fst (EnableTCPIP ?E ?b 5555 [])) = Some ErrorKindParse"
    using EnableTCPIP_classifies [of 5555 ?E ?b "[]"] z
    unfolding r failure_output_trimmed failure_output_outcomes by simp
  have d: "map_option Kind (fst (DisconnectDevice ?E ?b ''192.168.1.5'' 5555 []))
      = Some ErrorKindParse"
    using DisconnectDevice_classifies [of "''192.168.1.5''" 5555 ?E ?b "[]"] z
    unfolding r failure_output_trimmed failure_output_outcomes by simp
  show ?thesis
    unfolding failure_output_trimmed
    by (intro conjI) (fact z failure_output_phrases t d)+
qed

text \<open>
  Claim C6, as the code has it. \<open>EnableTCPIP\<close> and \<open>DisconnectDevice\<close> have no failure
  group: when the command exits with status 0 and its trimmed standard output has none of
  the success phrases of the operation, the result is an error of kind \<open>parse\<close>, whether
  the output says \<open>failed\<close>, \<open>error\<close> or \<open>unable\<close> or not.
\<close>

theorem no_success_phrase_gives_parse:
  "(0 < port
      \<and> run_err (cmd_run E (adbTimeout b) (adbPath b) [''tcpip'', Itoa port]) = None
      \<and> \<not> containsAny E
            (TrimSpace (out_bytes (cmd_run E (adbTimeout b) (adbPath b) [''tcpip'', Itoa port])))
            [''restarting in TCP mode'', ''already in tcp''] \<longrightarrow>
    map_option Kind (fst (EnableTCPIP E b port lg)) = Some ErrorKindParse)
   \<and> (ip \<noteq> [] \<and> 0 < port
      \<and> run_err (cmd_run E (adbTimeout b) (adbPath b)
            [''disconnect'', ip @ '':'' @ Itoa port]) = None
      \<and> \<not> containsAny E
            (TrimSpace (out_bytes (cmd_run E (adbTimeout b) (adbPath b)
               [''disconnect'', ip @ '':'' @ Itoa port])))
            [''disconnected'', ''no such device''] \<longrightarrow>
    map_option Kind (fst (DisconnectDevice E b ip port lg)) = Some ErrorKindParse)"
proof (intro conjI impI)
  assume a: "0 < port
      \<and> run_err (cmd_run E (adbTimeout b) (adbPath b) [''tcpip'', Itoa port]) = None
      \<and> \<not> containsAny E
            (TrimSpace (out_bytes (cmd_run E (adbTimeout b) (adbPath b) [''tcpip'', Itoa port])))
            [''restarting in TCP mode'', ''already in tcp'']"
  then have "spec_outcome E [''restarting in TCP mode'', ''already in tcp''] []
      (TrimSpace (out_bytes (cmd_run E (adbTimeout b) (adbPath b) [''tcpip'', Itoa port])))
      = Some ErrorKindParse"
    unfolding containsAny_iff spec_outcome_def by simp
  with a EnableTCPIP_classifies [of port E b lg]
  show "map_option Kind (fst (EnableTCPIP E b port lg)) = Some ErrorKindParse" by simp
next
  assume a: "ip \<noteq> [] \<and> 0 < port
      \<and> run_err (cmd_run E (adbTimeout b) (adbPath b)
            [''disconnect'', ip @ '':'' @ Itoa port]) = None
      \<and> \<not> containsAny E
            (TrimSpace (out_bytes (cmd_run E (adbTimeout b) (adbPath b)
               [''disconnect'', ip @ '':'' @ Itoa port])))
            [''disconnected'', ''no such device'']"
  then have "spec_outcome E [''disconnected'', ''no such device''] []
      (TrimSpace (out_bytes (cmd_run E (adbTimeout b) (adbPath b)
         [''disconnect'', ip @ '':'' @ Itoa port])))
      = Some ErrorKindParse"
    unfolding containsAny_iff spec_outcome_def by simp
  with a DisconnectDevice_classifies [of ip port E b lg]
  show "map_option Kind (fst (DisconnectDevice E b ip port lg)) = Some ErrorKindParse"
    by simp
qed

theorem no_success_phrase_gives_parse_witness:
  "(0::int) < 5555 \<and> ''192.168.1.5'' \<noteq> []
   \<and> run_err (exit_zero failure_output) = None
   \<and> \<not> containsAny (env_of (exit_zero failure_output))
         (TrimSpace (out_bytes (exit_zero failure_output)))
         [''restarting in TCP mode'', ''already in tcp'']
   \<and> \<not> containsAny (env_of (exit_zero failure_output))
         (TrimSpace (out_bytes (exit_zero failure_output)))
         [''disconnected'', ''no such device'']
   \<and> map_option Kind (fst (EnableTCPIP (env_of (exit_zero failure_output)) (NewBackend [] [])
        5555 [])) = Some ErrorKindParse
   \<and> map_option Kind (fst (DisconnectDevice (env_of (exit_zero failure_output))
        (NewBackend [] []) ''192.168.1.5'' 5555 [])) = Some ErrorKindParse"
proof -
  let ?E = "env_of (exit_zero failure_output)"
  let ?b = "NewBackend [] []"
  have r: "cmd_run ?E x y z = exit_zero failure_output" for x y z by (simp add: env_of_def)
  have z: "run_err (exit_zero failure_output) = None" by (simp add: exit_zero_def)
  have v1: "(0::int) < 5555" and v2: "''192.168.1.5'' \<noteq> []" by simp_all
  note n = failure_output_phrases(4,5)
  note T = no_success_phrase_gives_parse [of 5555 ?E ?b "[]" "''192.168.1.5''",
      unfolded r failure_output_trimmed]
  from T v1 v2 z n have t: "map_option Kind (fst (EnableTCPIP ?E ?b 5555 []))
      = Some ErrorKindParse" by blast
  from T v1 v2 z n have d: "map_option Kind (fst (DisconnectDevice ?E ?b ''192.168.1.5'' 5555 []))
      = Some ErrorKindParse" by blast
  show ?thesis
    unfolding failure_output_trimmed
    by (intro conjI) (fact v1 v2 z n t d)+
qed

subsection \<open>Listing devices\<close>

lemma parse_lines_good:
  assumes "\<forall>l \<in> set (filter (\<lambda>l. l \<noteq> [] \<and> \<not> prefix ''List of devices attached'' l)
              (map TrimSpace ls)). 2 \<le> length (Fields l)"
  shows "parse_lines stdout stderr ls acc =
     (acc @ map spec_device_of_line
        (filter (\<lambda>l. l \<noteq> [] \<and> \<not> prefix ''List of devices attached'' l) (map TrimSpace ls)),
      None)"
  using assms
proof (induction ls arbitrary: acc)
  case Nil
  show ?case by simp
next
  case (Cons l ls)
  then show ?case
    by (auto simp: Let_def HasPrefix_def spec_device_of_line_def split: if_splits)
qed

lemma parse_lines_bad:
  assumes "\<exists>l \<in> set (filter (\<lambda>l. l \<noteq> [] \<and> \<not> prefix ''List of devices attached'' l)
              (map TrimSpace ls)). length (Fields l) < 2"
  shows "\<exists>u. parse_lines stdout stderr ls acc = ([], Some u) \<and> Kind u = ErrorKindParse
     \<and> Stdout u = stdout \<and> Stderr u = stderr"
  using assms
proof (induction ls arbitrary: acc)
  case Nil
  then show ?case by simp
next
  case (Cons l ls)
  show ?case
  proof (cases "TrimSpace l = [] \<or> prefix ''List of devices attached'' (TrimSpace l)")
    case True
    with Cons.prems have "\<exists>l \<in> set (filter (\<lambda>l. l \<noteq> [] \<and> \<not> prefix ''List of devices attached'' l)
              (map TrimSpace ls)). length (Fields l) < 2"
      by auto
    from Cons.IH [OF this] True show ?thesis by (simp add: Let_def HasPrefix_def)
  next
    case False
    show ?thesis
    proof (cases "length (Fields (TrimSpace l)) < 2")
      case True
      with False show ?thesis by (simp add: Let_def HasPrefix_def newParseError_def)
    next
      case short: False
      with False Cons.prems
      have "\<exists>l \<in> set (filter (\<lambda>l. l \<noteq> [] \<and> \<not> prefix ''List of devices attached'' l)
              (map TrimSpace ls)). length (Fields l) < 2"
        by auto
      from Cons.IH [OF this] False short show ?thesis by (simp add: Let_def HasPrefix_def)
    qed
  qed
qed

lemma one_device_lines:
  "TrimSpace one_device_output = (''List of devices attached\<newline>\<newline>'' @ device_line)"
  "spec_device_lines (''List of devices attached\<newline>\<newline>'' @ device_line) = [device_line]"
  "Fields device_line = [''abc123'', ''device'']"
  by code_simp+

text \<open>
  Claim C5. When \<open>adb devices\<close> exits with status 0, \<open>ListDevices\<close> splits the trimmed
  standard output at line feeds, trims each line and leaves out the empty lines and the
  lines that start with the header. If each line that is left has two fields or more, the
  result is one device for each of them, in order, made of its first two fields, and no
  error. If one of them has fewer than two fields, the result is the empty list and an
  error of kind \<open>parse\<close>. For the output \<open>"List of devices attached\n\nabc123\tdevice\n"\<close>
  the result is the single device \<open>abc123\<close> in state \<open>device\<close>.
\<close>

theorem ListDevices_parses_lines:
  assumes "r = cmd_run E (adbTimeout b) (adbPath b) [''devices'']"
    and "run_err r = None"
  shows "((\<forall>l \<in> set (spec_device_lines (TrimSpace (out_bytes r))). 2 \<le> length (Fields l)) \<longrightarrow>
      fst (ListDevices E b lg) =
        (map spec_device_of_line (spec_device_lines (TrimSpace (out_bytes r))), None))
    \<and> ((\<exists>l \<in> set (spec_device_lines (TrimSpace (out_bytes r))). length (Fields l) < 2) \<longrightarrow>
      (\<exists>u. fst (ListDevices E b lg) = ([], Some u) \<and> Kind u = ErrorKindParse))
    \<and> (out_bytes r = one_device_output \<longrightarrow>
      fst (ListDevices E b lg) = ([\<lparr> ID = ''abc123'', State = ''device'' \<rparr>], None))"
proof -
  let ?out = "TrimSpace (out_bytes r)"
  have run: "runAdb E b [''devices''] lg =
      ((?out, TrimSpace (err_bytes r), None), lg @ [(adbPath b, [''devices''])])"
    using assms by (simp add: runAdb_zero_exit)
  have eq: "fst (ListDevices E b lg) =
      parse_lines ?out (TrimSpace (err_bytes r)) (SplitLines ?out) []"
    by (simp add: ListDevices_def run)
  have good: "fst (ListDevices E b lg) = (map spec_device_of_line (spec_device_lines ?out), None)"
    if "\<forall>l \<in> set (spec_device_lines ?out). 2 \<le> length (Fields l)"
    using that parse_lines_good [of "SplitLines ?out" ?out "TrimSpace (err_bytes r)" "[]"]
    unfolding eq spec_device_lines_def by simp
  have bad: "\<exists>u. fst (ListDevices E b lg) = ([], Some u) \<and> Kind u = ErrorKindParse"
    if "\<exists>l \<in> set (spec_device_lines ?out). length (Fields l) < 2"
    using that parse_lines_bad [of "SplitLines ?out" ?out "TrimSpace (err_bytes r)" "[]"]
    unfolding eq spec_device_lines_def by blast
  have one: "fst (ListDevices E b lg) = ([\<lparr> ID = ''abc123'', State = ''device'' \<rparr>], None)"
    if "out_bytes r = one_device_output"
  proof -
    from that have o: "?out = (''List of devices attached\<newline>\<newline>'' @ device_line)"
      by (simp add: one_device_lines(1))
    have "\<forall>l \<in> set (spec_device_lines ?out). 2 \<le> length (Fields l)"
      unfolding o one_device_lines(2) by (simp add: one_device_lines(3))
    from good [OF this] show ?thesis
      unfolding o one_device_lines(2) by (simp add: spec_device_of_line_def one_device_lines(3))
  qed
  from good bad one show ?thesis by blast
qed

lemma single_token_lines:
  "TrimSpace single_token_output = (''List of devices attached\<newline>'' @ device_line @ ''\<newline>def456'')"
  "spec_device_lines (''List of devices attached\<newline>'' @ device_line @ ''\<newline>def456'')
     = [device_line, ''def456'']"
  "Fields ''def456'' = [''def456'']"
  by code_simp+

theorem ListDevices_parses_lines_witness:
  "run_err (exit_zero one_device_output) = None
   \<and> fst (ListDevices (env_of (exit_zero one_device_output)) (NewBackend [] []) [])
       = ([\<lparr> ID = ''abc123'', State = ''device'' \<rparr>], None)
   \<and> run_err (exit_zero single_token_output) = None
   \<and> (\<exists>l \<in> set (spec_device_lines (TrimSpace (out_bytes (exit_zero single_token_output)))).
         length (Fields l) < 2)
   \<and> (\<exists>u. fst (ListDevices (env_of (exit_zero single_token_output)) (NewBackend [] []) [])
          = ([], Some u) \<and> Kind u = ErrorKindParse)"
proof -
  have r1: "exit_zero one_device_output =
      cmd_run (env_of (exit_zero one_device_output)) (adbTimeout (NewBackend [] []))
        (adbPath (NewBackend [] [])) [''devices'']"
    by (simp add: env_of_def)
  have z1: "run_err (exit_zero one_device_output) = None" by (simp add: exit_zero_def)
  have o1: "out_bytes (exit_zero one_device_output) = one_device_output"
    by (simp add: exit_zero_def)
  from ListDevices_parses_lines [OF r1 z1, of "[]"] o1
  have a: "fst (ListDevices (env_of (exit_zero one_device_output)) (NewBackend [] []) [])
       = ([\<lparr> ID = ''abc123'', State = ''device'' \<rparr>], None)"
    by blast
  have r2: "exit_zero single_token_output =
      cmd_run (env_of (exit_zero single_token_output)) (adbTimeout (NewBackend [] []))
        (adbPath (NewBackend [] [])) [''devices'']"
    by (simp add: env_of_def)
  have z2: "run_err (exit_zero single_token_output) = None" by (simp add: exit_zero_def)
  have o2: "out_bytes (exit_zero single_token_output) = single_token_output"
    by (simp add: exit_zero_def)
  have b: "\<exists>l \<in> set (spec_device_lines (TrimSpace (out_bytes (exit_zero single_token_output)))).
         length (Fields l) < 2"
    unfolding o2 single_token_lines(1,2) by (simp add: single_token_lines(3))
  from ListDevices_parses_lines [OF r2 z2, of "[]"] b
  have c: "\<exists>u. fst (ListDevices (env_of (exit_zero single_token_output)) (NewBackend [] []) [])
          = ([], Some u) \<and> Kind u = ErrorKindParse"
    by blast
  show ?thesis by (intro conjI) (fact z1 a z2 b c)+
qed

end
